theory Spec2Isabelle
  imports Complex_Main "HOL-Library.AList"
begin

section \<open>Python values\<close>

text \<open>
  A Python dict is an association list: \<open>AList.update\<close> overwrites the value of a key that
  is present in place and appends a new key at the end, as \<open>d[k] = v\<close> does, so the order
  of \<open>d.items()\<close> is the order of the list. Python floats are modelled as reals: rounding
  is not modelled, the special results of a division by zero are (\<open>npfloat\<close> below).
\<close>

type_synonym ('k, 'v) dict = "('k \<times> 'v) list"

datatype error =
    HTTPException nat string
  | ValueError string
  | MissingColumns "string set"
  | RequiredModelsNotAvailable "string set"
  | InvalidModelName string "string list"
  | UnsupportedAlgorithm string
  | FileNotFoundError string
  | KeyError string
  | AttributeError string
  | NotFittedError
  | NotImplementedError string
  | TypeError string

text \<open>
  Sequencing of fallible steps: an exception raised by the first step leaves the rest
  undone.
\<close>

definition bind_result :: "error + 'a \<Rightarrow> ('a \<Rightarrow> error + 'b) \<Rightarrow> error + 'b" where
  "bind_result m f = (case m of Inl e \<Rightarrow> Inl e | Inr v \<Rightarrow> f v)"

text \<open>\<open>d[k]\<close>: raises KeyError on a missing key.\<close>

definition getitem :: "(string, 'v) dict \<Rightarrow> string \<Rightarrow> error + 'v" where
  "getitem d k = (case map_of d k of None \<Rightarrow> Inl (KeyError k) | Some v \<Rightarrow> Inr v)"

text \<open>\<open>d.get(k, default)\<close>.\<close>

definition dict_get :: "('k, 'v) dict \<Rightarrow> 'k \<Rightarrow> 'v \<Rightarrow> 'v" where
  "dict_get d k dflt = (case map_of d k of None \<Rightarrow> dflt | Some v \<Rightarrow> v)"

text \<open>\<open>d.keys()\<close>.\<close>

definition keys :: "('k, 'v) dict \<Rightarrow> 'k list" where
  "keys d = map fst d"

text \<open>
  The result of a numpy division. A zero divisor does not raise: numpy warns and returns
  an infinity or nan.
\<close>

datatype npfloat = Finite real | PosInf | NegInf | NaN

definition np_divide :: "real \<Rightarrow> real \<Rightarrow> npfloat" where
  "np_divide a b =
     (if b = 0 then (if 0 < a then PosInf else if a < 0 then NegInf else NaN)
      else Finite (a / b))"

fun np_clip :: "npfloat \<Rightarrow> real \<Rightarrow> real \<Rightarrow> npfloat" where
  "np_clip (Finite x) lo hi = Finite (min (max x lo) hi)"
| "np_clip PosInf lo hi = Finite hi"
| "np_clip NegInf lo hi = Finite lo"
| "np_clip NaN lo hi = NaN"

text \<open>\<open>w * x\<close> and \<open>x + y\<close> on values that are finite or nan (what \<open>np_clip\<close> returns).\<close>

fun np_scale :: "real \<Rightarrow> npfloat \<Rightarrow> npfloat" where
  "np_scale w (Finite x) = Finite (w * x)"
| "np_scale w v = NaN"

fun np_add :: "npfloat \<Rightarrow> npfloat \<Rightarrow> npfloat" where
  "np_add (Finite x) (Finite y) = Finite (x + y)"
| "np_add u v = NaN"

section \<open>Tables and configuration\<close>

datatype cell = Num real | Str string | Null

text \<open>A pandas DataFrame: the column names, and each row as the cells by column name.\<close>

record dataframe =
  columns :: "string list"
  rows :: "(string, cell) dict list"

text \<open>\<open>df[cols]\<close> for a list of column names that are all columns of \<open>df\<close>.\<close>

definition select_columns :: "dataframe \<Rightarrow> string list \<Rightarrow> dataframe" where
  "select_columns df cols =
     \<lparr>columns = cols, rows = map (filter (\<lambda>kv. fst kv \<in> set cols)) (rows df)\<rparr>"

text \<open>\<open>df[c].values\<close>: KeyError when \<open>c\<close> is not a column.\<close>

definition column_values :: "dataframe \<Rightarrow> string \<Rightarrow> error + cell list" where
  "column_values df c =
     (if c \<in> set (columns df) then Inr (map (\<lambda>r. dict_get r c Null) (rows df))
      else Inl (KeyError c))"

text \<open>
  \<open>config["features"]\<close>. Every key is read with \<open>config.get(key, default)\<close> in
  features.py, so each may be absent.
\<close>

record features_config =
  fc_numeric :: "string list option"
  fc_categorical :: "string list option"
  fc_identifier_columns :: "string list option"
  fc_drop_columns :: "string list option"

record preprocessing_config =
  pc_numeric_strategy :: string
  pc_scale_method :: string
  pc_categorical_unknown :: string

record model_config =
  mc_name :: string
  mc_algorithm :: string
  mc_threshold_percentile :: real

record artifacts_config =
  art_dir :: string
  art_preprocessor :: string
  art_model_template :: string
  art_meta_template :: string

record data_config =
  dc_train_path :: string
  dc_inference_path :: string
  dc_output_dir :: string

record config =
  cfg_data :: data_config
  cfg_features :: features_config
  cfg_preprocessing :: preprocessing_config
  cfg_models :: "model_config list"
  cfg_ensemble_weights :: "(string, real) dict"
  cfg_artifacts :: artifacts_config

definition get_or :: "'a option \<Rightarrow> 'a \<Rightarrow> 'a" where
  "get_or v dflt = (case v of None \<Rightarrow> dflt | Some x \<Rightarrow> x)"

section \<open>features.py\<close>

text \<open>
  \<open>prepare_features\<close>: the missing columns are computed and, for training data only,
  logged as a warning; nothing is raised. The result is the table without the identifier
  and drop columns, and the identifier column names.
\<close>

definition prepare_features :: "dataframe \<Rightarrow> features_config \<Rightarrow> bool \<Rightarrow> dataframe \<times> string list" where
  "prepare_features df fc is_training =
     (let identifier_cols = get_or (fc_identifier_columns fc) [''interaction_id'', ''timestamp''];
          drop_cols = get_or (fc_drop_columns fc) [];
          feature_cols = filter (\<lambda>c. c \<notin> set identifier_cols \<and> c \<notin> set drop_cols) (columns df)
      in (select_columns df feature_cols, identifier_cols))"

definition required_cols :: "features_config \<Rightarrow> string list" where
  "required_cols fc =
     get_or (fc_numeric fc) [] @ get_or (fc_categorical fc) [] @ get_or (fc_identifier_columns fc) []"

definition validate_schema :: "dataframe \<Rightarrow> features_config \<Rightarrow> error + bool" where
  "validate_schema df fc =
     (let missing = set (required_cols fc) - set (columns df)
      in if missing = {} then Inr True else Inl (MissingColumns missing))"

text \<open>
  The ColumnTransformer. \<open>build_preprocessor\<close> returns it unfitted, with the feature lists
  and the three strategy names; fitting adds, per numeric feature, the imputation value
  and the scaler as the affine map \<open>x * factor + shift\<close> and, per categorical feature, the
  vocabulary.
\<close>

record fitted_state =
  num_params :: "(real \<times> real \<times> real) list"
  cat_vocab :: "cell list list"

record preprocessor =
  pp_numeric_features :: "string list"
  pp_categorical_features :: "string list"
  pp_numeric_strategy :: string
  pp_scale_method :: string
  pp_handle_unknown :: string
  pp_fitted :: "fitted_state option"

definition build_preprocessor ::
  "string list \<Rightarrow> string list \<Rightarrow> string \<Rightarrow> string \<Rightarrow> string \<Rightarrow> preprocessor" where
  "build_preprocessor numeric_features categorical_features numeric_strategy scale_method categorical_unknown =
     \<lparr>pp_numeric_features = numeric_features,
      pp_categorical_features = categorical_features,
      pp_numeric_strategy = numeric_strategy,
      pp_scale_method = scale_method,
      pp_handle_unknown = categorical_unknown,
      pp_fitted = None\<rparr>"

text \<open>
  Modelled from the spec: scikit-learn's \<open>OneHotEncoder.transform\<close>, \<open>SimpleImputer\<close>,
  the scalers and \<open>ColumnTransformer.transform\<close> are library code, not under src/. The
  spec (4.1, 7) gives the behaviour: a missing numeric value is replaced by the fitted
  statistic and scaled; a missing categorical value becomes the category "missing"; the
  value is one-hot expanded against the vocabulary of fit time; a value outside it gives
  the all-zero indicator; a transform before fit is the invalid-state error. Two
  behaviours are the library's own and not in the spec: under \<open>handle_unknown = "error"\<close>,
  the second setting that the docstring of \<open>build_preprocessor\<close> names for
  \<open>categorical_unknown\<close>, the encoder raises on a value outside the vocabulary; and a table
  that lacks one of the feature columns is refused with a ValueError, a table with no
  column at all with the TypeError of iterating over the absent list of its column
  names.
\<close>

fun impute_categorical :: "cell \<Rightarrow> cell" where
  "impute_categorical Null = Str ''missing''"
| "impute_categorical v = v"

definition onehot :: "string \<Rightarrow> cell list \<Rightarrow> cell \<Rightarrow> error + real list" where
  "onehot handle_unknown vocab v =
     (if v \<in> set vocab then Inr (map (\<lambda>c. if c = v then 1 else 0) vocab)
      else if handle_unknown = ''error'' then Inl (ValueError ''Found unknown categories'')
      else Inr (replicate (length vocab) 0))"

fun transform_numeric :: "real \<times> real \<times> real \<Rightarrow> cell \<Rightarrow> error + real" where
  "transform_numeric (fill, factor, shift) (Num x) = Inr (x * factor + shift)"
| "transform_numeric (fill, factor, shift) Null = Inr (fill * factor + shift)"
| "transform_numeric (fill, factor, shift) (Str s) = Inl (ValueError ''could not convert string to float'')"

text \<open>Collects the results of a list of fallible computations; the first error wins.\<close>

fun sequence :: "(error + 'a) list \<Rightarrow> error + 'a list" where
  "sequence [] = Inr []"
| "sequence (x # xs) =
     (case x of Inl e \<Rightarrow> Inl e
      | Inr v \<Rightarrow> (case sequence xs of Inl e \<Rightarrow> Inl e | Inr vs \<Rightarrow> Inr (v # vs)))"

definition transform_row :: "preprocessor \<Rightarrow> fitted_state \<Rightarrow> (string, cell) dict \<Rightarrow> error + real list" where
  "transform_row pp fs r =
     bind_result (sequence (map (\<lambda>(c, p). transform_numeric p (dict_get r c Null))
                                (zip (pp_numeric_features pp) (num_params fs)))) (\<lambda>nums.
     bind_result (sequence (map (\<lambda>(c, vocab). onehot (pp_handle_unknown pp) vocab
                                                  (impute_categorical (dict_get r c Null)))
                                (zip (pp_categorical_features pp) (cat_vocab fs)))) (\<lambda>hots.
       Inr (nums @ concat hots)))"

definition transform :: "preprocessor \<Rightarrow> dataframe \<Rightarrow> error + real list list" where
  "transform pp df =
     (case pp_fitted pp of
        None \<Rightarrow> Inl NotFittedError
      | Some fs \<Rightarrow>
          if columns df = []
          then Inl (TypeError ([CHR 0x27] @ ''NoneType'' @ [CHR 0x27] @ '' object is not iterable''))
          else if set (pp_numeric_features pp @ pp_categorical_features pp) - set (columns df) = {}
          then sequence (map (transform_row pp fs) (rows df))
          else Inl (ValueError ''columns are missing''))"

section \<open>Fitted models and their metadata\<close>

text \<open>
  A fitted detector scores each row of the feature matrix on its own. An IsolationForest
  has \<open>score_samples\<close>; a pyod LOF has it on its \<open>detector_\<close> only.
\<close>

datatype model = IsolationForest "real list \<Rightarrow> real" | LOF "real list \<Rightarrow> real"

fun score_samples :: "model \<Rightarrow> real list list \<Rightarrow> error + real list" where
  "score_samples (IsolationForest f) X = Inr (map f X)"
| "score_samples (LOF g) X = Inl (AttributeError ''score_samples'')"

fun detector_score_samples :: "model \<Rightarrow> real list list \<Rightarrow> error + real list" where
  "detector_score_samples (LOF g) X = Inr (map g X)"
| "detector_score_samples (IsolationForest f) X = Inl (AttributeError ''detector_'')"

record score_stats =
  stat_min :: real
  stat_max :: real
  stat_mean :: real
  stat_std :: real

text \<open>
  The metadata dict of one model, with the keys \<open>train_models\<close> writes (train.py 121-135);
  the timestamp and the model parameters, which no scoring path reads, are left out.
\<close>

record metadata =
  md_algorithm :: string
  md_n_samples :: nat
  md_n_features :: nat
  md_threshold :: real
  md_threshold_percentile :: real
  md_score_stats :: score_stats

text \<open>What \<open>joblib.load\<close> can return.\<close>

datatype pyobj = PreprocessorObj preprocessor | ModelObj model | MetadataObj metadata

fun as_preprocessor :: "pyobj \<Rightarrow> error + preprocessor" where
  "as_preprocessor (PreprocessorObj p) = Inr p"
| "as_preprocessor obj = Inl (AttributeError ''transform'')"

fun as_model :: "pyobj \<Rightarrow> error + model" where
  "as_model (ModelObj m) = Inr m"
| "as_model obj = Inl (AttributeError ''score_samples'')"

fun as_metadata :: "pyobj \<Rightarrow> error + metadata" where
  "as_metadata (MetadataObj m) = Inr m"
| "as_metadata obj = Inl (KeyError ''threshold'')"

text \<open>
  The block both predict.py (139-151) and service.py (192-204) run on each model's
  scores: min-max normalisation against the training statistics, clipped to [0, 1].
\<close>

definition epsilon :: real where
  "epsilon = 1 / 10 ^ 10"

definition denominator :: "score_stats \<Rightarrow> real" where
  "denominator ss = stat_max ss - stat_min ss + epsilon"

definition normalized :: "score_stats \<Rightarrow> real \<Rightarrow> npfloat" where
  "normalized ss s = np_clip (np_divide (s - stat_min ss) (denominator ss)) 0 1"

definition ensemble_score :: "real \<Rightarrow> real \<Rightarrow> npfloat \<Rightarrow> npfloat \<Rightarrow> npfloat" where
  "ensemble_score iforest_weight lof_weight iforest_normalized lof_normalized =
     np_add (np_scale iforest_weight iforest_normalized) (np_scale lof_weight lof_normalized)"

section \<open>Files\<close>

text \<open>
  What the program reads: the configuration \<open>load_config\<close> parses, the joblib files, the
  CSV files, and the clock. An absent entry is a file that is missing or cannot be
  parsed.
\<close>

record world =
  w_config :: "config option"
  w_files :: "string \<Rightarrow> pyobj option"
  w_csv :: "string \<Rightarrow> dataframe option"
  w_now :: nat

definition load_config :: "world \<Rightarrow> error + config" where
  "load_config w = (case w_config w of None \<Rightarrow> Inl (FileNotFoundError ''config'') | Some c \<Rightarrow> Inr c)"

definition joblib_load :: "world \<Rightarrow> string \<Rightarrow> error + pyobj" where
  "joblib_load w path = (case w_files w path of None \<Rightarrow> Inl (FileNotFoundError path) | Some obj \<Rightarrow> Inr obj)"

definition load_csv :: "world \<Rightarrow> string \<Rightarrow> error + dataframe" where
  "load_csv w path =
     (if take 5 path = ''s3://'' then Inl (NotImplementedError ''S3 loading not yet implemented. Use local paths.'')
      else case w_csv w path of None \<Rightarrow> Inl (FileNotFoundError path) | Some df \<Rightarrow> Inr df)"

text \<open>
  \<open>template.format(name=name)\<close>: every \<open>{name}\<close> of the template is replaced and a doubled
  brace is one brace. A template with another field or a single brace, on which
  \<open>str.format\<close> raises, is not modelled.
\<close>

fun format_name :: "string \<Rightarrow> string \<Rightarrow> string" where
  "format_name [] n = []"
| "format_name (c # cs) n =
     (if take 6 (c # cs) = ''{name}'' then n @ format_name (drop 5 cs) n
      else if take 2 (c # cs) = ''{{'' \<or> take 2 (c # cs) = ''}}'' then c # format_name (drop 1 cs) n
      else c # format_name cs n)"

text \<open>\<open>Path(artifacts_dir) / file\<close>.\<close>

definition path_join :: "string \<Rightarrow> string \<Rightarrow> string" where
  "path_join d f = d @ ''/'' @ f"

definition preprocessor_path :: "config \<Rightarrow> string" where
  "preprocessor_path cfg = path_join (art_dir (cfg_artifacts cfg)) (art_preprocessor (cfg_artifacts cfg))"

definition model_path :: "config \<Rightarrow> string \<Rightarrow> string" where
  "model_path cfg n = path_join (art_dir (cfg_artifacts cfg)) (format_name (art_model_template (cfg_artifacts cfg)) n)"

definition meta_path :: "config \<Rightarrow> string \<Rightarrow> string" where
  "meta_path cfg n = path_join (art_dir (cfg_artifacts cfg)) (format_name (art_meta_template (cfg_artifacts cfg)) n)"

section \<open>Scoring shared by predict.py and service.py\<close>

text \<open>
  predict.py 110-116 and service.py 164-168: the model and its metadata are looked up
  under the name \<open>iforest\<close>, the scores are the negated \<open>score_samples\<close>, and a record is
  flagged when its score reaches the threshold of the metadata.
\<close>

definition score_iforest ::
  "(string, pyobj) dict \<Rightarrow> (string, pyobj) dict \<Rightarrow> real list list \<Rightarrow> error + (real list \<times> bool list)" where
  "score_iforest models metadata X =
     bind_result (getitem models ''iforest'') (\<lambda>mobj.
     bind_result (getitem metadata ''iforest'') (\<lambda>mdobj.
     bind_result (as_metadata mdobj) (\<lambda>iforest_metadata.
     bind_result (as_model mobj) (\<lambda>iforest_model.
     bind_result (score_samples iforest_model X) (\<lambda>raw.
       (let iforest_threshold = md_threshold iforest_metadata;
            iforest_scores = map uminus raw
        in Inr (iforest_scores, map (\<lambda>s. iforest_threshold \<le> s) iforest_scores)))))))"

text \<open>predict.py 121-127 and service.py 174-179: the same for \<open>lof\<close>, through \<open>detector_\<close>.\<close>

definition score_lof ::
  "(string, pyobj) dict \<Rightarrow> (string, pyobj) dict \<Rightarrow> real list list \<Rightarrow> error + (real list \<times> bool list)" where
  "score_lof models metadata X =
     bind_result (getitem models ''lof'') (\<lambda>mobj.
     bind_result (getitem metadata ''lof'') (\<lambda>mdobj.
     bind_result (as_metadata mdobj) (\<lambda>lof_metadata.
     bind_result (as_model mobj) (\<lambda>lof_model.
     bind_result (detector_score_samples lof_model X) (\<lambda>raw.
       (let lof_threshold = md_threshold lof_metadata;
            lof_scores = map uminus raw
        in Inr (lof_scores, map (\<lambda>s. lof_threshold \<le> s) lof_scores)))))))"

text \<open>
  predict.py 134-151 and service.py 187-204: the weights default to 0.5 each; each
  model's scores are normalised against its own training statistics; the ensemble score
  is the weighted sum.
\<close>

definition ensemble_scores ::
  "(string, real) dict \<Rightarrow> metadata \<Rightarrow> metadata \<Rightarrow> real list \<Rightarrow> real list \<Rightarrow> npfloat list" where
  "ensemble_scores weights iforest_metadata lof_metadata iforest_scores lof_scores =
     (let iforest_weight = dict_get weights ''iforest'' (1 / 2);
          lof_weight = dict_get weights ''lof'' (1 / 2);
          iforest_normalized = map (normalized (md_score_stats iforest_metadata)) iforest_scores;
          lof_normalized = map (normalized (md_score_stats lof_metadata)) lof_scores
      in map (\<lambda>(a, b). ensemble_score iforest_weight lof_weight a b) (zip iforest_normalized lof_normalized))"

text \<open>The metadata of a model, as both paths read it again for the ensemble.\<close>

definition metadata_of :: "(string, pyobj) dict \<Rightarrow> string \<Rightarrow> error + metadata" where
  "metadata_of metadata n = bind_result (getitem metadata n) as_metadata"

section \<open>predict.py\<close>

record artifacts =
  a_preprocessor :: pyobj
  a_models :: "(string, pyobj) dict"
  a_metadata :: "(string, pyobj) dict"

text \<open>The loop of \<open>load_artifacts\<close> over \<open>models_to_load\<close>, filling two local dicts.\<close>

fun load_each ::
  "world \<Rightarrow> config \<Rightarrow> string list \<Rightarrow> (string, pyobj) dict \<Rightarrow> (string, pyobj) dict
     \<Rightarrow> error + ((string, pyobj) dict \<times> (string, pyobj) dict)" where
  "load_each w cfg [] models metadata = Inr (models, metadata)"
| "load_each w cfg (n # ns) models metadata =
     bind_result (joblib_load w (model_path cfg n)) (\<lambda>m.
     bind_result (joblib_load w (meta_path cfg n)) (\<lambda>md.
       load_each w cfg ns (AList.update n m models) (AList.update n md metadata)))"

text \<open>\<open>model_name\<close> is \<open>None\<close> or a string; \<open>if model_name:\<close> holds for a non-empty string.\<close>

definition models_to_load :: "config \<Rightarrow> string option \<Rightarrow> error + string list" where
  "models_to_load cfg model_name =
     (let valid_names = map mc_name (cfg_models cfg)
      in case model_name of
           None \<Rightarrow> Inr valid_names
         | Some n \<Rightarrow> (if n = [] then Inr valid_names
                      else if n \<in> set valid_names then Inr [n]
                      else Inl (InvalidModelName n valid_names)))"

definition load_artifacts :: "world \<Rightarrow> config \<Rightarrow> string option \<Rightarrow> error + artifacts" where
  "load_artifacts w cfg model_name =
     bind_result (joblib_load w (preprocessor_path cfg)) (\<lambda>preprocessor.
     bind_result (models_to_load cfg model_name) (\<lambda>names.
     bind_result (load_each w cfg names [] []) (\<lambda>(models, metadata).
       Inr \<lparr>a_preprocessor = preprocessor, a_models = models, a_metadata = metadata\<rparr>)))"

text \<open>One row of the results table of \<open>predict_batch\<close>.\<close>

record prediction =
  p_timestamp :: "cell option"
  p_interaction_id :: cell
  p_iforest_score :: real
  p_iforest_anomaly :: bool
  p_lof_score :: real
  p_lof_anomaly :: bool
  p_ensemble_score :: npfloat
  p_ensemble_anomaly :: bool

text \<open>predict.py 96-101: both models are required, whatever was asked for.\<close>

definition require_both :: "artifacts \<Rightarrow> error + unit" where
  "require_both arts =
     (let required_models = {''iforest'', ''lof''};
          available_models = set (keys (a_models arts))
      in if required_models \<subseteq> available_models then Inr ()
         else Inl (RequiredModelsNotAvailable (required_models - available_models)))"

text \<open>predict.py 159-174: the results table, row by row; the timestamp only if present.\<close>

definition results_table ::
  "dataframe \<Rightarrow> real list \<Rightarrow> bool list \<Rightarrow> real list \<Rightarrow> bool list \<Rightarrow> npfloat list \<Rightarrow> bool list
     \<Rightarrow> error + prediction list" where
  "results_table df iforest_scores iforest_anomalies lof_scores lof_anomalies ens ensemble_anomalies =
     bind_result (column_values df ''interaction_id'') (\<lambda>ids.
       (let stamps = (case column_values df ''timestamp'' of Inl e \<Rightarrow> None | Inr ts \<Rightarrow> Some ts)
        in Inr (map (\<lambda>i. \<lparr>p_timestamp = map_option (\<lambda>ts. ts ! i) stamps,
                            p_interaction_id = ids ! i,
                            p_iforest_score = iforest_scores ! i,
                            p_iforest_anomaly = iforest_anomalies ! i,
                            p_lof_score = lof_scores ! i,
                            p_lof_anomaly = lof_anomalies ! i,
                            p_ensemble_score = ens ! i,
                            p_ensemble_anomaly = ensemble_anomalies ! i\<rparr>)
                     [0..<length (rows df)])))"

definition predict_batch :: "world \<Rightarrow> config \<Rightarrow> artifacts \<Rightarrow> error + prediction list" where
  "predict_batch w cfg arts =
     bind_result (load_csv w (dc_inference_path (cfg_data cfg))) (\<lambda>df.
     bind_result (require_both arts) (\<lambda>u.
     bind_result (as_preprocessor (a_preprocessor arts)) (\<lambda>pp.
     bind_result (transform pp (fst (prepare_features df (cfg_features cfg) False))) (\<lambda>X.
     bind_result (score_iforest (a_models arts) (a_metadata arts) X) (\<lambda>(iforest_scores, iforest_anomalies).
     bind_result (score_lof (a_models arts) (a_metadata arts) X) (\<lambda>(lof_scores, lof_anomalies).
     bind_result (metadata_of (a_metadata arts) ''iforest'') (\<lambda>iforest_metadata.
     bind_result (metadata_of (a_metadata arts) ''lof'') (\<lambda>lof_metadata.
       results_table df iforest_scores iforest_anomalies lof_scores lof_anomalies
         (ensemble_scores (cfg_ensemble_weights cfg) iforest_metadata lof_metadata
            iforest_scores lof_scores)
         (map (\<lambda>(a, b). a \<or> b) (zip iforest_anomalies lof_anomalies))))))))))"

record predict_args =
  arg_input :: "string option"
  arg_output :: "string option"
  arg_model :: string

text \<open>\<open>if args.input:\<close> and \<open>if args.output:\<close> hold for a non-empty string.\<close>

definition override_paths :: "config \<Rightarrow> predict_args \<Rightarrow> config" where
  "override_paths config0 args =
     (let config1 = (case arg_input args of
                       None \<Rightarrow> config0
                     | Some i \<Rightarrow> (if i = [] then config0
                                  else config0\<lparr>cfg_data := (cfg_data config0)\<lparr>dc_inference_path := i\<rparr>\<rparr>))
      in (case arg_output args of
            None \<Rightarrow> config1
          | Some out \<Rightarrow> (if out = [] then config1
                         else config1\<lparr>cfg_data := (cfg_data config1)\<lparr>dc_output_dir := out\<rparr>\<rparr>)))"

text \<open>
  \<open>main\<close> of predict.py: the model name handed to \<open>load_artifacts\<close> is the \<open>--model\<close>
  argument unless that is \<open>ensemble\<close>. The result is the table and the directory it is
  saved to.
\<close>

definition predict_main :: "world \<Rightarrow> predict_args \<Rightarrow> error + (prediction list \<times> string)" where
  "predict_main w args =
     bind_result (load_config w) (\<lambda>config0.
       (let cfg = override_paths config0 args;
            model_name = (if arg_model args = ''ensemble'' then None else Some (arg_model args))
        in bind_result (load_artifacts w cfg model_name) (\<lambda>arts.
           bind_result (predict_batch w cfg arts) (\<lambda>results_df.
             Inr (results_df, dc_output_dir (cfg_data cfg))))))"

section \<open>train.py\<close>

text \<open>
  Modelled from the spec: \<open>np.percentile\<close> is numpy's, not under src/. Spec 4.4: the
  threshold is the value at the given percentile (0-100) of the training scores, with
  linear interpolation between order statistics for non-integer ranks. The rank of
  percentile \<open>q\<close> among \<open>n\<close> sorted scores is \<open>q / 100 * (n - 1)\<close>, counted from 0. A
  percentile outside 0-100 is refused; so is an empty array here, on which training
  cannot go on either (the minimum of the scores is taken next).
\<close>

definition percentile :: "real list \<Rightarrow> real \<Rightarrow> error + real" where
  "percentile a q =
     (if q < 0 \<or> 100 < q then Inl (ValueError ''Percentiles must be in the range [0, 100]'')
      else if a = [] then Inl (ValueError ''zero-size array'')
      else (let s = sort a;
                rank = q / 100 * real (length a - 1);
                lo = nat \<lfloor>rank\<rfloor>;
                hi = min (lo + 1) (length a - 1)
            in Inr (s ! lo + (rank - real lo) * (s ! hi - s ! lo))))"

text \<open>
  Fitting is the libraries' work (scikit-learn, pyod) and is taken as given: the
  preprocessor fitted on the feature table with the transformed table, the fitted
  isolation forest as its \<open>score_samples\<close>, the fitted LOF as its \<open>score_samples\<close> and its
  \<open>negative_outlier_factor_\<close> on the training rows.
\<close>

record learners =
  fit_transform :: "preprocessor \<Rightarrow> dataframe \<Rightarrow> error + (preprocessor \<times> real list list)"
  fit_iforest :: "model_config \<Rightarrow> real list list \<Rightarrow> error + (real list \<Rightarrow> real)"
  fit_lof :: "model_config \<Rightarrow> real list list \<Rightarrow> error + ((real list \<Rightarrow> real) \<times> real list)"

text \<open>train.py 97-110: the model and its training scores, higher meaning more anomalous.\<close>

definition fit_model :: "learners \<Rightarrow> model_config \<Rightarrow> real list list \<Rightarrow> error + (model \<times> real list)" where
  "fit_model L mc X_train =
     (if mc_algorithm mc = ''IsolationForest''
      then bind_result (fit_iforest L mc X_train) (\<lambda>f.
             Inr (IsolationForest f, map (\<lambda>r. - f r) X_train))
      else if mc_algorithm mc = ''LOF''
      then bind_result (fit_lof L mc X_train) (\<lambda>(g, negative_outlier_factor).
             Inr (LOF g, map uminus negative_outlier_factor))
      else Inl (UnsupportedAlgorithm (mc_algorithm mc)))"

definition mean :: "real list \<Rightarrow> real" where
  "mean xs = sum_list xs / real (length xs)"

text \<open>train.py 129-134, on a non-empty array.\<close>

definition stats_of :: "real list \<Rightarrow> score_stats" where
  "stats_of train_scores =
     \<lparr>stat_min = Min (set train_scores),
      stat_max = Max (set train_scores),
      stat_mean = mean train_scores,
      stat_std = sqrt (mean (map (\<lambda>x. (x - mean train_scores)\<^sup>2) train_scores))\<rparr>"

definition n_columns :: "real list list \<Rightarrow> nat" where
  "n_columns X = (case X of [] \<Rightarrow> 0 | r # rs \<Rightarrow> length r)"

text \<open>train.py 90-135: one turn of the loop over \<open>config["models"]\<close>.\<close>

definition train_one ::
  "learners \<Rightarrow> model_config \<Rightarrow> real list list \<Rightarrow> nat \<Rightarrow> error + (model \<times> metadata)" where
  "train_one L mc X_train n =
     bind_result (fit_model L mc X_train) (\<lambda>(m, train_scores).
     bind_result (percentile train_scores (mc_threshold_percentile mc)) (\<lambda>thr.
       Inr (m, \<lparr>md_algorithm = mc_algorithm mc,
                 md_n_samples = n,
                 md_n_features = n_columns X_train,
                 md_threshold = thr,
                 md_threshold_percentile = mc_threshold_percentile mc,
                 md_score_stats = stats_of train_scores\<rparr>)))"

fun train_loop ::
  "learners \<Rightarrow> model_config list \<Rightarrow> real list list \<Rightarrow> nat \<Rightarrow> (string, pyobj) dict
     \<Rightarrow> (string, pyobj) dict \<Rightarrow> error + ((string, pyobj) dict \<times> (string, pyobj) dict)" where
  "train_loop L [] X_train n models metadata = Inr (models, metadata)"
| "train_loop L (mc # mcs) X_train n models metadata =
     bind_result (train_one L mc X_train n) (\<lambda>(m, md).
       train_loop L mcs X_train n (AList.update (mc_name mc) (ModelObj m) models)
         (AList.update (mc_name mc) (MetadataObj md) metadata))"

text \<open>\<open>config["features"][key]\<close>: KeyError when the key is absent.\<close>

definition required_key :: "string \<Rightarrow> 'a option \<Rightarrow> error + 'a" where
  "required_key k v = (case v of None \<Rightarrow> Inl (KeyError k) | Some x \<Rightarrow> Inr x)"

text \<open>
  \<open>train_models\<close>: the schema is validated first, on the table as loaded. The entry
  \<open>metadata["global"]\<close>, a summary that no scoring path reads, is left out.
\<close>

definition train_models :: "world \<Rightarrow> learners \<Rightarrow> config \<Rightarrow> error + artifacts" where
  "train_models w L cfg =
     bind_result (load_csv w (dc_train_path (cfg_data cfg))) (\<lambda>df.
     bind_result (validate_schema df (cfg_features cfg)) (\<lambda>ok.
     bind_result (required_key ''numeric'' (fc_numeric (cfg_features cfg))) (\<lambda>numeric_features.
     bind_result (required_key ''categorical'' (fc_categorical (cfg_features cfg))) (\<lambda>categorical_features.
     bind_result (fit_transform L
                    (build_preprocessor numeric_features categorical_features
                       (pc_numeric_strategy (cfg_preprocessing cfg))
                       (pc_scale_method (cfg_preprocessing cfg))
                       (pc_categorical_unknown (cfg_preprocessing cfg)))
                    (fst (prepare_features df (cfg_features cfg) True))) (\<lambda>(pp, X_train).
     bind_result (train_loop L (cfg_models cfg) X_train (length (rows df)) [] []) (\<lambda>(models, metadata).
       Inr \<lparr>a_preprocessor = PreprocessorObj pp, a_models = models, a_metadata = metadata\<rparr>))))))"

section \<open>service.py\<close>

text \<open>
  The global \<open>_model_state\<close>. Every function of the service reads and writes this one
  dict; it is passed in and, where it is written, returned.
\<close>

record model_state =
  ms_preprocessor :: "pyobj option"
  ms_models :: "(string, pyobj) dict"
  ms_metadata :: "(string, pyobj) dict"
  ms_loaded_at :: "nat option"
  ms_config :: "config option"

definition initial_state :: model_state where
  "initial_state =
     \<lparr>ms_preprocessor = None, ms_models = [], ms_metadata = [], ms_loaded_at = None, ms_config = None\<rparr>"

text \<open>
  The loop of \<open>load_model_artifacts\<close> (82-91). The result is the exception that ended the
  loop, if any, and the successive values of \<open>_model_state\<close>, one after each assignment.
\<close>

fun load_models_loop ::
  "world \<Rightarrow> config \<Rightarrow> model_config list \<Rightarrow> model_state \<Rightarrow> error option \<times> model_state list" where
  "load_models_loop w cfg [] st = (None, [])"
| "load_models_loop w cfg (mc # mcs) st =
     (case joblib_load w (model_path cfg (mc_name mc)) of
        Inl e \<Rightarrow> (Some e, [])
      | Inr m \<Rightarrow>
          (let st1 = st\<lparr>ms_models := AList.update (mc_name mc) m (ms_models st)\<rparr>
           in (case joblib_load w (meta_path cfg (mc_name mc)) of
                 Inl e \<Rightarrow> (Some e, [st1])
               | Inr md \<Rightarrow>
                   (let st2 = st1\<lparr>ms_metadata := AList.update (mc_name mc) md (ms_metadata st1)\<rparr>;
                        rest = load_models_loop w cfg mcs st2
                    in (fst rest, st1 # st2 # snd rest)))))"

text \<open>
  \<open>load_model_artifacts\<close> (66-100): the configuration is read, the preprocessor is
  assigned, the loop runs, then \<open>loaded_at\<close> and \<open>config\<close> are assigned. An exception is
  logged and raised again; what was assigned before it stays assigned.
\<close>

definition load_model_artifacts_states :: "world \<Rightarrow> model_state \<Rightarrow> error option \<times> model_state list" where
  "load_model_artifacts_states w st =
     (case load_config w of
        Inl e \<Rightarrow> (Some e, [])
      | Inr cfg \<Rightarrow>
          (case joblib_load w (preprocessor_path cfg) of
             Inl e \<Rightarrow> (Some e, [])
           | Inr p \<Rightarrow>
               (let st1 = st\<lparr>ms_preprocessor := Some p\<rparr>;
                    loop = load_models_loop w cfg (cfg_models cfg) st1;
                    st2 = last (st1 # snd loop)
                in (case fst loop of
                      Some e \<Rightarrow> (Some e, st1 # snd loop)
                    | None \<Rightarrow>
                        (let st3 = st2\<lparr>ms_loaded_at := Some (w_now w)\<rparr>;
                             st4 = st3\<lparr>ms_config := Some cfg\<rparr>
                         in (None, st1 # snd loop @ [st3, st4]))))))"

text \<open>The exception raised, if any, and \<open>_model_state\<close> when the call ends.\<close>

definition load_model_artifacts :: "world \<Rightarrow> model_state \<Rightarrow> error option \<times> model_state" where
  "load_model_artifacts w st =
     (let r = load_model_artifacts_states w st in (fst r, last (st # snd r)))"

text \<open>
  \<open>str(e)\<close>. A missing file and a missing key are rendered as Python renders them; the
  set of names of an error of this repository and the sentence of an AttributeError are
  left out.
\<close>

fun str_error :: "error \<Rightarrow> string" where
  "str_error (HTTPException c d) = d"
| "str_error (ValueError m) = m"
| "str_error (MissingColumns S) = ''DataFrame missing required columns''"
| "str_error (RequiredModelsNotAvailable S) = ''Required models not available''"
| "str_error (InvalidModelName n v) = ''Invalid model name''"
| "str_error (UnsupportedAlgorithm a) = ''Unsupported algorithm: '' @ a"
| "str_error (FileNotFoundError f) =
     ''[Errno 2] No such file or directory: '' @ [CHR 0x27] @ f @ [CHR 0x27]"
| "str_error (KeyError k) = [CHR 0x27] @ k @ [CHR 0x27]"
| "str_error (AttributeError a) = a"
| "str_error NotFittedError = ''not fitted''"
| "str_error (NotImplementedError m) = m"
| "str_error (TypeError m) = m"

text \<open>\<open>POST /reload\<close>: any exception of the load becomes a response with status 500.\<close>

definition reload_model :: "world \<Rightarrow> model_state \<Rightarrow> (error + string) \<times> model_state" where
  "reload_model w st =
     (let r = load_model_artifacts w st
      in (case fst r of
            None \<Rightarrow> (Inr ''success'', snd r)
          | Some e \<Rightarrow> (Inl (HTTPException 500 (str_error e)), snd r)))"

text \<open>The startup handler: a failed load is logged and startup continues.\<close>

definition startup_event :: "world \<Rightarrow> model_state \<Rightarrow> model_state" where
  "startup_event w st = snd (load_model_artifacts w st)"

text \<open>\<open>GET /health\<close>: the status and \<open>model_loaded\<close>.\<close>

definition health_check :: "model_state \<Rightarrow> string \<times> bool" where
  "health_check st =
     (let model_loaded = (ms_models st \<noteq> [])
      in (if model_loaded then ''healthy'' else ''degraded'', model_loaded))"

record InteractionRecord =
  ir_interaction_id :: string
  ir_timestamp :: string
  ir_csat :: "real option"
  ir_ies :: "real option"
  ir_complaints :: "int option"
  ir_aht_seconds :: "real option"
  ir_hold_time_seconds :: "real option"
  ir_transfers :: "int option"
  ir_channel :: "string option"
  ir_language :: "string option"
  ir_queue :: "string option"

record AnomalyScore =
  as_interaction_id :: string
  as_scores :: "(string, npfloat) dict"
  as_is_anomaly :: "(string, int) dict"

definition real_cell :: "real option \<Rightarrow> cell" where
  "real_cell v = (case v of None \<Rightarrow> Null | Some x \<Rightarrow> Num x)"

definition int_cell :: "int option \<Rightarrow> cell" where
  "int_cell v = (case v of None \<Rightarrow> Null | Some x \<Rightarrow> Num (of_int x))"

definition str_cell :: "string option \<Rightarrow> cell" where
  "str_cell v = (case v of None \<Rightarrow> Null | Some x \<Rightarrow> Str x)"

text \<open>\<open>record.model_dump()\<close>: every field of the schema, \<open>None\<close> where it was not given.\<close>

definition model_dump :: "InteractionRecord \<Rightarrow> (string, cell) dict" where
  "model_dump r =
     [(''interaction_id'', Str (ir_interaction_id r)),
      (''timestamp'', Str (ir_timestamp r)),
      (''csat'', real_cell (ir_csat r)),
      (''ies'', real_cell (ir_ies r)),
      (''complaints'', int_cell (ir_complaints r)),
      (''aht_seconds'', real_cell (ir_aht_seconds r)),
      (''hold_time_seconds'', real_cell (ir_hold_time_seconds r)),
      (''transfers'', int_cell (ir_transfers r)),
      (''channel'', str_cell (ir_channel r)),
      (''language'', str_cell (ir_language r)),
      (''queue'', str_cell (ir_queue r))]"

text \<open>
  \<open>pd.DataFrame(records_data)\<close> for dicts that all have the same keys: the columns are
  those keys; an empty list gives a table without columns.
\<close>

definition DataFrame :: "(string, cell) dict list \<Rightarrow> dataframe" where
  "DataFrame records_data =
     \<lparr>columns = (case records_data of [] \<Rightarrow> [] | r # rs \<Rightarrow> keys r), rows = records_data\<rparr>"

text \<open>\<open>str.lower\<close> on ASCII letters.\<close>

definition lower :: "string \<Rightarrow> string" where
  "lower s = map (\<lambda>c. dict_get (zip ''ABCDEFGHIJKLMNOPQRSTUVWXYZ'' ''abcdefghijklmnopqrstuvwxyz'') c c) s"

definition model_map :: "(string, string) dict" where
  "model_map = [(''lof'', ''lof'')]"

definition models_to_compute :: "string \<Rightarrow> string list" where
  "models_to_compute model_selection =
     (if model_selection = ''both'' then [''iforest'', ''lof'']
      else (case map_of model_map model_selection of
              Some m \<Rightarrow> [m]
            | None \<Rightarrow> [model_selection]))"

text \<open>service.py 139-145: the first requested model that is not loaded is reported.\<close>

fun ensure_available :: "string list \<Rightarrow> string list \<Rightarrow> error + unit" where
  "ensure_available available_models [] = Inr ()"
| "ensure_available available_models (n # ns) =
     (if n \<in> set available_models then ensure_available available_models ns
      else Inl (HTTPException 503 (''Model '' @ [CHR 0x27] @ n @ [CHR 0x27] @ '' not available'')))"

text \<open>
  service.py 159-182. \<open>computed_scores\<close> and \<open>computed_anomalies\<close> get the same keys in
  the same order: one dict holds, per model, the scores and the flags as integers.
\<close>

definition compute_requested ::
  "model_state \<Rightarrow> string list \<Rightarrow> real list list \<Rightarrow> error + (string, real list \<times> int list) dict" where
  "compute_requested st to_compute X =
     bind_result
       (if ''iforest'' \<in> set to_compute
        then bind_result (score_iforest (ms_models st) (ms_metadata st) X) (\<lambda>(iforest_scores, flags).
               Inr (AList.update ''iforest'' (iforest_scores, map of_bool flags) []))
        else Inr [])
       (\<lambda>computed.
          if ''lof'' \<in> set to_compute
          then bind_result (score_lof (ms_models st) (ms_metadata st) X) (\<lambda>(lof_scores, flags).
                 Inr (AList.update ''lof'' (lof_scores, map of_bool flags) computed))
          else Inr computed)"

text \<open>
  service.py 184-213: the ensemble entry of both dicts, computed only for \<open>both\<close>. The
  flag is \<open>np.logical_or\<close> of the two integer flags, as an integer.
\<close>

definition compute_ensemble ::
  "config \<Rightarrow> model_state \<Rightarrow> string \<Rightarrow> (string, real list \<times> int list) dict
     \<Rightarrow> error + (npfloat list \<times> int list) option" where
  "compute_ensemble cfg st model_selection computed =
     (if model_selection = ''both'' \<and> ''iforest'' \<in> set (keys computed) \<and> ''lof'' \<in> set (keys computed)
      then bind_result (getitem computed ''iforest'') (\<lambda>(iforest_scores, iforest_anomalies).
           bind_result (getitem computed ''lof'') (\<lambda>(lof_scores, lof_anomalies).
           bind_result (metadata_of (ms_metadata st) ''iforest'') (\<lambda>iforest_metadata.
           bind_result (metadata_of (ms_metadata st) ''lof'') (\<lambda>lof_metadata.
             Inr (Some (ensemble_scores (cfg_ensemble_weights cfg) iforest_metadata lof_metadata
                          iforest_scores lof_scores,
                        map (\<lambda>(a, b). of_bool (\<not> (a = 0 \<and> b = 0)))
                            (zip iforest_anomalies lof_anomalies)))))))
      else Inr None)"

text \<open>service.py 217-243: the response entry of record \<open>i\<close>.\<close>

definition build_result ::
  "(string, real list \<times> int list) dict \<Rightarrow> (npfloat list \<times> int list) option \<Rightarrow> nat
     \<Rightarrow> InteractionRecord \<Rightarrow> AnomalyScore" where
  "build_result computed ens i r =
     (let scores_dict = map (\<lambda>(n, (arr, flags)). (n, Finite (arr ! i))) computed;
          is_anomaly_dict = map (\<lambda>(n, (arr, flags)). (n, flags ! i)) computed
      in (case ens of
            None \<Rightarrow>
              \<lparr>as_interaction_id = ir_interaction_id r, as_scores = scores_dict,
               as_is_anomaly = is_anomaly_dict\<rparr>
          | Some (ensemble, ensemble_anomalies) \<Rightarrow>
              \<lparr>as_interaction_id = ir_interaction_id r,
               as_scores = AList.update ''ensemble'' (ensemble ! i) scores_dict,
               as_is_anomaly = AList.update ''ensemble'' (ensemble_anomalies ! i) is_anomaly_dict\<rparr>))"

definition score_records :: "model_state \<Rightarrow> InteractionRecord list \<Rightarrow> string \<Rightarrow> error + AnomalyScore list" where
  "score_records st records selection =
     (if ms_models st = [] then Inl (HTTPException 503 ''Models not loaded'')
      else (let model_selection = lower selection
      in if model_selection \<notin> {''iforest'', ''lof'', ''lof'', ''both''}
         then Inl (HTTPException 400 ''model must be one of: iforest, lof, both'')
         else
     bind_result (ensure_available (keys (ms_models st)) (models_to_compute model_selection)) (\<lambda>u.
     bind_result (case ms_config st of None \<Rightarrow> Inl (TypeError ''config'') | Some c \<Rightarrow> Inr c) (\<lambda>cfg.
     bind_result (case ms_preprocessor st of None \<Rightarrow> Inl (AttributeError ''transform'')
                  | Some obj \<Rightarrow> as_preprocessor obj) (\<lambda>pp.
     bind_result (transform pp (fst (prepare_features (DataFrame (map model_dump records))
                                       (cfg_features cfg) False))) (\<lambda>X.
     bind_result (compute_requested st (models_to_compute model_selection) X) (\<lambda>computed.
     bind_result (compute_ensemble cfg st model_selection computed) (\<lambda>ens.
       Inr (map (\<lambda>i. build_result computed ens i (records ! i)) [0..<length records])))))))))"

record BatchScoreResponse =
  bs_scores :: "AnomalyScore list"
  bs_total_records :: nat
  bs_anomalies_detected :: int

text \<open>\<open>max(d.values())\<close>: ValueError on an empty dict.\<close>

definition max_values :: "(string, int) dict \<Rightarrow> error + int" where
  "max_values d = (case map snd d of [] \<Rightarrow> Inl (ValueError ''max() arg is an empty sequence'')
                   | v # vs \<Rightarrow> Inr (fold max vs v))"

definition anomaly_count :: "AnomalyScore \<Rightarrow> error + int" where
  "anomaly_count s = (case map_of (as_is_anomaly s) ''ensemble'' of
                        Some f \<Rightarrow> Inr f
                      | None \<Rightarrow> max_values (as_is_anomaly s))"

text \<open>
  \<open>POST /score\<close> (297-347): an HTTPException of \<open>score_records\<close> is passed on, any other
  exception becomes a response with status 500.
\<close>

fun to_http :: "error \<Rightarrow> error" where
  "to_http (HTTPException c d) = HTTPException c d"
| "to_http e = HTTPException 500 (str_error e)"

definition score_interactions ::
  "model_state \<Rightarrow> InteractionRecord list \<Rightarrow> string \<Rightarrow> error + BatchScoreResponse" where
  "score_interactions st records model_param =
     (case bind_result (score_records st records model_param) (\<lambda>scores.
           bind_result (sequence (map anomaly_count scores)) (\<lambda>counts.
             Inr \<lparr>bs_scores = scores, bs_total_records = length records,
                  bs_anomalies_detected = sum_list counts\<rparr>)) of
        Inl e \<Rightarrow> Inl (to_http e)
      | Inr resp \<Rightarrow> Inr resp)"

section \<open>A worked configuration\<close>

text \<open>
  One numeric feature, one categorical feature, both models, equal weights: the inputs the
  theorems below are run on.
\<close>

definition example_config :: config where
  "example_config =
     \<lparr>cfg_data = \<lparr>dc_train_path = ''train.csv'', dc_inference_path = ''inference.csv'',
                   dc_output_dir = ''out''\<rparr>,
      cfg_features = \<lparr>fc_numeric = Some [''csat''], fc_categorical = Some [''channel''],
                       fc_identifier_columns = Some [''interaction_id'', ''timestamp''],
                       fc_drop_columns = Some [''interaction_id'', ''timestamp'']\<rparr>,
      cfg_preprocessing = \<lparr>pc_numeric_strategy = ''mean'', pc_scale_method = ''standard'',
                            pc_categorical_unknown = ''ignore''\<rparr>,
      cfg_models = [\<lparr>mc_name = ''iforest'', mc_algorithm = ''IsolationForest'',
                      mc_threshold_percentile = 90\<rparr>,
                    \<lparr>mc_name = ''lof'', mc_algorithm = ''LOF'', mc_threshold_percentile = 90\<rparr>],
      cfg_ensemble_weights = [(''iforest'', 1 / 2), (''lof'', 1 / 2)],
      cfg_artifacts = \<lparr>art_dir = ''artifacts'', art_preprocessor = ''preprocessor.joblib'',
                        art_model_template = ''model_{name}.joblib'',
                        art_meta_template = ''meta_{name}.joblib''\<rparr>\<rparr>"

definition example_fit :: fitted_state where
  "example_fit = \<lparr>num_params = [(3, 1, 0)], cat_vocab = [[Str ''chat'', Str ''voice'']]\<rparr>"

definition example_preprocessor :: preprocessor where
  "example_preprocessor =
     (build_preprocessor [''csat''] [''channel''] ''mean'' ''standard'' ''ignore'')
       \<lparr>pp_fitted := Some example_fit\<rparr>"

text \<open>The same pipeline built with \<open>categorical_unknown = "error"\<close>.\<close>

definition strict_preprocessor :: preprocessor where
  "strict_preprocessor =
     (build_preprocessor [''csat''] [''channel''] ''mean'' ''standard'' ''error'')
       \<lparr>pp_fitted := Some example_fit\<rparr>"

definition example_iforest :: model where
  "example_iforest = IsolationForest (\<lambda>r. (r ! 0 - 5) / 5)"

definition example_lof :: model where
  "example_lof = LOF (\<lambda>r. - (1 + r ! 2))"

definition example_iforest_metadata :: metadata where
  "example_iforest_metadata =
     \<lparr>md_algorithm = ''IsolationForest'', md_n_samples = 4, md_n_features = 3,
      md_threshold = 1 / 2, md_threshold_percentile = 90,
      md_score_stats = \<lparr>stat_min = 1 / 10, stat_max = 3 / 5, stat_mean = 3 / 10, stat_std = 1 / 5\<rparr>\<rparr>"

definition example_lof_metadata :: metadata where
  "example_lof_metadata =
     \<lparr>md_algorithm = ''LOF'', md_n_samples = 4, md_n_features = 3,
      md_threshold = 3 / 2, md_threshold_percentile = 90,
      md_score_stats = \<lparr>stat_min = 1, stat_max = 3 / 2, stat_mean = 5 / 4, stat_std = 1 / 4\<rparr>\<rparr>"

text \<open>Four interactions; the channel of the second was never seen at fit time.\<close>

definition example_table :: dataframe where
  "example_table =
     \<lparr>columns = [''interaction_id'', ''timestamp'', ''csat'', ''channel''],
      rows = [[(''interaction_id'', Str ''a''), (''timestamp'', Str ''t1''),
               (''csat'', Num (9 / 2)), (''channel'', Str ''voice'')],
              [(''interaction_id'', Str ''b''), (''timestamp'', Str ''t2''),
               (''csat'', Num 1), (''channel'', Str ''fax'')],
              [(''interaction_id'', Str ''c''), (''timestamp'', Str ''t3''),
               (''csat'', Num 1), (''channel'', Str ''voice'')],
              [(''interaction_id'', Str ''d''), (''timestamp'', Str ''t4''),
               (''csat'', Num (9 / 2)), (''channel'', Str ''chat'')]]\<rparr>"

definition example_world :: world where
  "example_world =
     \<lparr>w_config = Some example_config,
      w_files = map_of [(''artifacts/preprocessor.joblib'', PreprocessorObj example_preprocessor),
                        (''artifacts/model_iforest.joblib'', ModelObj example_iforest),
                        (''artifacts/meta_iforest.joblib'', MetadataObj example_iforest_metadata),
                        (''artifacts/model_lof.joblib'', ModelObj example_lof),
                        (''artifacts/meta_lof.joblib'', MetadataObj example_lof_metadata)],
      w_csv = map_of [(''inference.csv'', example_table)],
      w_now = 1\<rparr>"

definition example_artifacts :: artifacts where
  "example_artifacts =
     \<lparr>a_preprocessor = PreprocessorObj example_preprocessor,
      a_models = [(''iforest'', ModelObj example_iforest), (''lof'', ModelObj example_lof)],
      a_metadata = [(''iforest'', MetadataObj example_iforest_metadata),
                    (''lof'', MetadataObj example_lof_metadata)]\<rparr>"

definition example_prediction :: "string \<Rightarrow> string \<Rightarrow> real \<Rightarrow> bool \<Rightarrow> real \<Rightarrow> bool \<Rightarrow> real \<Rightarrow> bool \<Rightarrow> prediction" where
  "example_prediction i t s1 f1 s2 f2 e f =
     \<lparr>p_timestamp = Some (Str t), p_interaction_id = Str i,
      p_iforest_score = s1, p_iforest_anomaly = f1, p_lof_score = s2, p_lof_anomaly = f2,
      p_ensemble_score = Finite e, p_ensemble_anomaly = f\<rparr>"

definition example_predictions :: "prediction list" where
  "example_predictions =
     [example_prediction ''a'' ''t1'' (1 / 10) False 2 True (1 / 2) True,
      example_prediction ''b'' ''t2'' (4 / 5) True 1 False (1 / 2) True,
      example_prediction ''c'' ''t3'' (4 / 5) True 2 True 1 True,
      example_prediction ''d'' ''t4'' (1 / 10) False 1 False 0 False]"

definition example_record :: "string \<Rightarrow> real \<Rightarrow> string \<Rightarrow> InteractionRecord" where
  "example_record i c ch =
     \<lparr>ir_interaction_id = i, ir_timestamp = ''2025-01-01T10:00:00Z'', ir_csat = Some c,
      ir_ies = None, ir_complaints = None, ir_aht_seconds = None, ir_hold_time_seconds = None,
      ir_transfers = None, ir_channel = Some ch, ir_language = None, ir_queue = None\<rparr>"

definition example_records :: "InteractionRecord list" where
  "example_records =
     [example_record ''a'' (9 / 2) ''voice'', example_record ''b'' 1 ''fax'',
      example_record ''c'' 1 ''voice'', example_record ''d'' (9 / 2) ''chat'']"

definition example_score :: "string \<Rightarrow> real \<Rightarrow> int \<Rightarrow> real \<Rightarrow> int \<Rightarrow> real \<Rightarrow> int \<Rightarrow> AnomalyScore" where
  "example_score i s1 f1 s2 f2 e f =
     \<lparr>as_interaction_id = i,
      as_scores = [(''iforest'', Finite s1), (''lof'', Finite s2), (''ensemble'', Finite e)],
      as_is_anomaly = [(''iforest'', f1), (''lof'', f2), (''ensemble'', f)]\<rparr>"

definition example_scores :: "AnomalyScore list" where
  "example_scores =
     [example_score ''a'' (1 / 10) 0 2 1 (1 / 2) 1,
      example_score ''b'' (4 / 5) 1 1 0 (1 / 2) 1,
      example_score ''c'' (4 / 5) 1 2 1 1 1,
      example_score ''d'' (1 / 10) 0 1 0 0 0]"

text \<open>The serving state after a load from \<open>example_world\<close>.\<close>

definition example_state :: model_state where
  "example_state =
     \<lparr>ms_preprocessor = Some (PreprocessorObj example_preprocessor),
      ms_models = [(''iforest'', ModelObj example_iforest), (''lof'', ModelObj example_lof)],
      ms_metadata = [(''iforest'', MetadataObj example_iforest_metadata),
                     (''lof'', MetadataObj example_lof_metadata)],
      ms_loaded_at = Some 1,
      ms_config = Some example_config\<rparr>"

text \<open>
  A retrained set of artifacts in the same directory: the scaler doubles, the detectors
  and their thresholds differ.
\<close>

definition updated_preprocessor :: preprocessor where
  "updated_preprocessor =
     example_preprocessor\<lparr>pp_fitted := Some (example_fit\<lparr>num_params := [(3, 2, 0)]\<rparr>)\<rparr>"

definition updated_iforest :: model where
  "updated_iforest = IsolationForest (\<lambda>r. (r ! 0 - 8) / 4)"

definition updated_lof :: model where
  "updated_lof = LOF (\<lambda>r. - (2 + r ! 2))"

definition updated_iforest_metadata :: metadata where
  "updated_iforest_metadata = example_iforest_metadata\<lparr>md_threshold := 1 / 4\<rparr>"

definition updated_lof_metadata :: metadata where
  "updated_lof_metadata = example_lof_metadata\<lparr>md_threshold := 5 / 2\<rparr>"

definition updated_world :: world where
  "updated_world =
     \<lparr>w_config = Some example_config,
      w_files = map_of [(''artifacts/preprocessor.joblib'', PreprocessorObj updated_preprocessor),
                        (''artifacts/model_iforest.joblib'', ModelObj updated_iforest),
                        (''artifacts/meta_iforest.joblib'', MetadataObj updated_iforest_metadata),
                        (''artifacts/model_lof.joblib'', ModelObj updated_lof),
                        (''artifacts/meta_lof.joblib'', MetadataObj updated_lof_metadata)],
      w_csv = map_of [(''inference.csv'', example_table)],
      w_now = 2\<rparr>"

definition updated_state :: model_state where
  "updated_state =
     \<lparr>ms_preprocessor = Some (PreprocessorObj updated_preprocessor),
      ms_models = [(''iforest'', ModelObj updated_iforest), (''lof'', ModelObj updated_lof)],
      ms_metadata = [(''iforest'', MetadataObj updated_iforest_metadata),
                     (''lof'', MetadataObj updated_lof_metadata)],
      ms_loaded_at = Some 2,
      ms_config = Some example_config\<rparr>"

text \<open>The same directory while the retraining is still writing: the LOF model is not there yet.\<close>

definition broken_world :: world where
  "broken_world =
     \<lparr>w_config = Some example_config,
      w_files = map_of [(''artifacts/preprocessor.joblib'', PreprocessorObj updated_preprocessor),
                        (''artifacts/model_iforest.joblib'', ModelObj updated_iforest),
                        (''artifacts/meta_iforest.joblib'', MetadataObj updated_iforest_metadata)],
      w_csv = map_of [(''inference.csv'', example_table)],
      w_now = 2\<rparr>"

text \<open>A directory with the preprocessor and the first model only.\<close>

definition partial_world :: world where
  "partial_world =
     \<lparr>w_config = Some example_config,
      w_files = map_of [(''artifacts/preprocessor.joblib'', PreprocessorObj example_preprocessor),
                        (''artifacts/model_iforest.joblib'', ModelObj example_iforest)],
      w_csv = map_of [(''inference.csv'', example_table)],
      w_now = 1\<rparr>"

text \<open>What \<open>load_artifacts\<close> returns for the model name \<open>iforest\<close>, and that command line.\<close>

definition iforest_only_artifacts :: artifacts where
  "iforest_only_artifacts =
     \<lparr>a_preprocessor = PreprocessorObj example_preprocessor,
      a_models = [(''iforest'', ModelObj example_iforest)],
      a_metadata = [(''iforest'', MetadataObj example_iforest_metadata)]\<rparr>"

definition iforest_args :: predict_args where
  "iforest_args = \<lparr>arg_input = None, arg_output = None, arg_model = ''iforest''\<rparr>"

text \<open>The feature matrix of the four interactions, and training on it.\<close>

definition example_matrix :: "real list list" where
  "example_matrix = [[9 / 2, 0, 1], [1, 0, 0], [1, 0, 1], [9 / 2, 1, 0]]"

text \<open>Learners that return the fitted objects of the worked configuration.\<close>

definition example_learners :: learners where
  "example_learners =
     \<lparr>fit_transform = (\<lambda>pp df. Inr (pp\<lparr>pp_fitted := Some example_fit\<rparr>, example_matrix)),
      fit_iforest = (\<lambda>mc X. Inr (\<lambda>r. (r ! 0 - 5) / 5)),
      fit_lof = (\<lambda>mc X. Inr (\<lambda>r. - (1 + r ! 2), [- 2, - 1, - 2, - 1]))\<rparr>"

definition example_train_scores :: "real list" where
  "example_train_scores = [1 / 10, 4 / 5, 4 / 5, 1 / 10]"

definition example_iforest_config :: model_config where
  "example_iforest_config =
     \<lparr>mc_name = ''iforest'', mc_algorithm = ''IsolationForest'', mc_threshold_percentile = 90\<rparr>"

definition example_trained_metadata :: metadata where
  "example_trained_metadata =
     \<lparr>md_algorithm = ''IsolationForest'', md_n_samples = 4, md_n_features = 3,
      md_threshold = 4 / 5, md_threshold_percentile = 90,
      md_score_stats = stats_of example_train_scores\<rparr>"

text \<open>
  A configuration that names a numeric feature, \<open>sentiment\<close>, which the request schema
  does not have, with a pipeline fitted for it.
\<close>

definition extended_config :: config where
  "extended_config =
     example_config\<lparr>cfg_features := (cfg_features example_config)
                       \<lparr>fc_numeric := Some [''csat'', ''sentiment'']\<rparr>\<rparr>"

definition extended_state :: model_state where
  "extended_state =
     example_state
       \<lparr>ms_preprocessor := Some (PreprocessorObj
           (example_preprocessor
              \<lparr>pp_numeric_features := [''csat'', ''sentiment''],
               pp_fitted := Some (example_fit\<lparr>num_params := [(3, 1, 0), (0, 1, 0)]\<rparr>)\<rparr>)),
        ms_config := Some extended_config\<rparr>"

text \<open>
  The retrained directory under a configuration that lists the isolation forest only.
\<close>

definition shrunk_world :: world where
  "shrunk_world =
     \<lparr>w_config = Some (example_config\<lparr>cfg_models := [example_iforest_config]\<rparr>),
      w_files = map_of [(''artifacts/preprocessor.joblib'', PreprocessorObj updated_preprocessor),
                        (''artifacts/model_iforest.joblib'', ModelObj updated_iforest),
                        (''artifacts/meta_iforest.joblib'', MetadataObj updated_iforest_metadata)],
      w_csv = map_of [(''inference.csv'', example_table)],
      w_now = 2\<rparr>"

text \<open>One request record, scored before and after a reload.\<close>

definition probe :: "InteractionRecord list" where
  "probe = [example_record ''a'' (9 / 2) ''voice'']"

section \<open>What a successful run computed\<close>

lemma bind_result_Inr:
  "bind_result m f = Inr y \<longleftrightarrow> (\<exists>v. m = Inr v \<and> f v = Inr y)"
  by (cases m) (simp_all add: bind_result_def)

lemma sequence_length: "sequence xs = Inr vs \<Longrightarrow> length vs = length xs"
  by (induction xs arbitrary: vs) (auto split: sum.splits)

lemma transform_length: "transform pp df = Inr X \<Longrightarrow> length X = length (rows df)"
  by (auto simp: transform_def dest: sequence_length split: option.splits if_splits)

lemma prepare_features_rows: "length (rows (fst (prepare_features df fc b))) = length (rows df)"
  by (simp add: prepare_features_def select_columns_def Let_def)

lemma score_iforest_Inr:
  assumes "score_iforest models metadata X = Inr (scores, flags)"
  shows "\<exists>md. metadata_of metadata ''iforest'' = Inr md \<and> length scores = length X
           \<and> flags = map (\<lambda>s. md_threshold md \<le> s) scores"
proof -
  from assms obtain mdobj md m raw where
    "getitem metadata ''iforest'' = Inr mdobj" "as_metadata mdobj = Inr md"
    "score_samples m X = Inr raw" "scores = map uminus raw"
    "flags = map (\<lambda>s. md_threshold md \<le> s) scores"
    by (auto simp: score_iforest_def bind_result_Inr Let_def)
  moreover from this have "length raw = length X"
    by (cases m) auto
  ultimately show ?thesis
    by (auto simp: metadata_of_def bind_result_Inr)
qed

lemma score_lof_Inr:
  assumes "score_lof models metadata X = Inr (scores, flags)"
  shows "\<exists>md. metadata_of metadata ''lof'' = Inr md \<and> length scores = length X
           \<and> flags = map (\<lambda>s. md_threshold md \<le> s) scores"
proof -
  from assms obtain mdobj md m raw where
    "getitem metadata ''lof'' = Inr mdobj" "as_metadata mdobj = Inr md"
    "detector_score_samples m X = Inr raw" "scores = map uminus raw"
    "flags = map (\<lambda>s. md_threshold md \<le> s) scores"
    by (auto simp: score_lof_def bind_result_Inr Let_def)
  moreover from this have "length raw = length X"
    by (cases m) auto
  ultimately show ?thesis
    by (auto simp: metadata_of_def bind_result_Inr)
qed

text \<open>What a successful run of predict_batch computed.\<close>

lemma predict_batch_Inr:
  assumes "predict_batch w cfg arts = Inr results"
  shows "\<exists>df iscores lscores imd lmd.
           load_csv w (dc_inference_path (cfg_data cfg)) = Inr df
         \<and> require_both arts = Inr ()
         \<and> metadata_of (a_metadata arts) ''iforest'' = Inr imd
         \<and> metadata_of (a_metadata arts) ''lof'' = Inr lmd
         \<and> length iscores = length (rows df) \<and> length lscores = length (rows df)
         \<and> results_table df iscores (map (\<lambda>s. md_threshold imd \<le> s) iscores)
              lscores (map (\<lambda>s. md_threshold lmd \<le> s) lscores)
              (ensemble_scores (cfg_ensemble_weights cfg) imd lmd iscores lscores)
              (map (\<lambda>(a, b). a \<or> b) (zip (map (\<lambda>s. md_threshold imd \<le> s) iscores)
                                           (map (\<lambda>s. md_threshold lmd \<le> s) lscores)))
            = Inr results"
proof -
  from assms obtain df u pp X iscores iflags lscores lflags imd lmd where
    df: "load_csv w (dc_inference_path (cfg_data cfg)) = Inr df"
    and rb: "require_both arts = Inr u"
    and X: "transform pp (fst (prepare_features df (cfg_features cfg) False)) = Inr X"
    and i: "score_iforest (a_models arts) (a_metadata arts) X = Inr (iscores, iflags)"
    and l: "score_lof (a_models arts) (a_metadata arts) X = Inr (lscores, lflags)"
    and imd: "metadata_of (a_metadata arts) ''iforest'' = Inr imd"
    and lmd: "metadata_of (a_metadata arts) ''lof'' = Inr lmd"
    and res: "results_table df iscores iflags lscores lflags
                (ensemble_scores (cfg_ensemble_weights cfg) imd lmd iscores lscores)
                (map (\<lambda>(a, b). a \<or> b) (zip iflags lflags)) = Inr results"
    by (auto simp: predict_batch_def bind_result_Inr)
  have lenX: "length X = length (rows df)"
    using transform_length[OF X] by (simp add: prepare_features_rows)
  from score_iforest_Inr[OF i] imd have
    "length iscores = length X" "iflags = map (\<lambda>s. md_threshold imd \<le> s) iscores" by auto
  moreover from score_lof_Inr[OF l] lmd have
    "length lscores = length X" "lflags = map (\<lambda>s. md_threshold lmd \<le> s) lscores" by auto
  ultimately show ?thesis using df rb imd lmd res lenX by auto
qed


lemma compute_requested_Inr:
  assumes "compute_requested st tc X = Inr computed"
  shows "distinct (keys computed)"
    and "(n, scores, flags) \<in> set computed \<Longrightarrow>
           (n = ''iforest'' \<or> n = ''lof'') \<and> n \<in> set tc \<and>
           (\<exists>md. metadata_of (ms_metadata st) n = Inr md \<and> length scores = length X
                 \<and> flags = map (\<lambda>s. of_bool (md_threshold md \<le> s)) scores)"
    and "n \<in> set tc \<Longrightarrow> n = ''iforest'' \<or> n = ''lof'' \<Longrightarrow> n \<in> set (keys computed)"
proof -
  from assms obtain c0 where
    c0: "(if ''iforest'' \<in> set tc
          then bind_result (score_iforest (ms_models st) (ms_metadata st) X) (\<lambda>(iforest_scores, flags).
                 Inr (AList.update ''iforest'' (iforest_scores, map of_bool flags) []))
          else Inr []) = Inr c0"
    and c1: "(if ''lof'' \<in> set tc
          then bind_result (score_lof (ms_models st) (ms_metadata st) X) (\<lambda>(lof_scores, flags).
                 Inr (AList.update ''lof'' (lof_scores, map of_bool flags) c0))
          else Inr c0) = Inr computed"
    by (auto simp: compute_requested_def bind_result_Inr)
  have k0: "(''iforest'' \<in> set tc \<longrightarrow> (\<exists>sc md. c0 = [(''iforest'', sc, map (\<lambda>s. of_bool (md_threshold md \<le> s)) sc)]
               \<and> metadata_of (ms_metadata st) ''iforest'' = Inr md \<and> length sc = length X))
          \<and> (''iforest'' \<notin> set tc \<longrightarrow> c0 = [])"
    using c0 by (auto simp: bind_result_Inr comp_def dest!: score_iforest_Inr split: if_splits)
  have k1: "(''lof'' \<in> set tc \<longrightarrow> (\<exists>sc md. computed = AList.update ''lof'' (sc, map (\<lambda>s. of_bool (md_threshold md \<le> s)) sc) c0
               \<and> metadata_of (ms_metadata st) ''lof'' = Inr md \<and> length sc = length X))
          \<and> (''lof'' \<notin> set tc \<longrightarrow> computed = c0)"
    using c1 by (auto simp: bind_result_Inr comp_def dest!: score_lof_Inr split: if_splits)
  show "distinct (keys computed)"
    using k0 k1 by (cases "''iforest'' \<in> set tc"; cases "''lof'' \<in> set tc") (auto simp: keys_def)
  show "(n = ''iforest'' \<or> n = ''lof'') \<and> n \<in> set tc \<and>
           (\<exists>md. metadata_of (ms_metadata st) n = Inr md \<and> length scores = length X
                 \<and> flags = map (\<lambda>s. of_bool (md_threshold md \<le> s)) scores)"
    if "(n, scores, flags) \<in> set computed"
    using k0 k1 that by (cases "''iforest'' \<in> set tc"; cases "''lof'' \<in> set tc") auto
  show "n \<in> set (keys computed)" if "n \<in> set tc" "n = ''iforest'' \<or> n = ''lof''"
    using k0 k1 that by (cases "''iforest'' \<in> set tc"; cases "''lof'' \<in> set tc") (auto simp: keys_def)
qed


lemma map_of_scores_dict:
  "map_of (map (\<lambda>(n, (arr, flags)). (n, Finite (arr ! i))) computed) n
     = map_option (\<lambda>(arr, flags). Finite (arr ! i)) (map_of computed n)"
  by (induction computed) auto

lemma map_of_is_anomaly_dict:
  "map_of (map (\<lambda>(n, (arr, flags)). (n, flags ! i)) computed) n
     = map_option (\<lambda>(arr, flags). flags ! i) (map_of computed n)"
  by (induction computed) auto

lemma compute_requested_lookup:
  assumes "compute_requested st tc X = Inr computed"
    and "map_of computed n = Some (scores, flags)"
  shows "(n = ''iforest'' \<or> n = ''lof'') \<and>
           (\<exists>md. metadata_of (ms_metadata st) n = Inr md \<and> length scores = length X
                 \<and> flags = map (\<lambda>s. of_bool (md_threshold md \<le> s)) scores)"
  using compute_requested_Inr(2)[OF assms(1)] map_of_SomeD[OF assms(2)] by blast

lemma compute_requested_present:
  assumes "compute_requested st tc X = Inr computed"
    and "n \<in> set tc" and "n = ''iforest'' \<or> n = ''lof''"
  shows "\<exists>scores flags. map_of computed n = Some (scores, flags)"
proof -
  have "n \<in> fst ` set computed"
    using compute_requested_Inr(3)[OF assms] by (simp add: keys_def)
  then show ?thesis
    by (metis domIff dom_map_of_conv_image_fst not_Some_eq prod.exhaust)
qed

lemma compute_ensemble_both:
  assumes "compute_ensemble cfg st ''both'' computed = Inr ens"
    and "map_of computed ''iforest'' = Some (iscores, iflags)"
    and "map_of computed ''lof'' = Some (lscores, lflags)"
  shows "\<exists>imd lmd. metadata_of (ms_metadata st) ''iforest'' = Inr imd
           \<and> metadata_of (ms_metadata st) ''lof'' = Inr lmd
           \<and> ens = Some (ensemble_scores (cfg_ensemble_weights cfg) imd lmd iscores lscores,
                         map (\<lambda>(a, b). of_bool (\<not> (a = 0 \<and> b = 0))) (zip iflags lflags))"
proof -
  have "''iforest'' \<in> set (keys computed)" "''lof'' \<in> set (keys computed)"
    using assms(2,3) by (auto simp: keys_def dest!: map_of_SomeD intro: rev_image_eqI)
  then show ?thesis
    using assms by (auto simp: compute_ensemble_def bind_result_Inr getitem_def)
qed

lemma compute_ensemble_Some:
  assumes "compute_ensemble cfg st sel computed = Inr (Some (es, ef))"
  shows "sel = ''both'' \<and> (\<exists>iscores iflags lscores lflags imd lmd.
           map_of computed ''iforest'' = Some (iscores, iflags)
         \<and> map_of computed ''lof'' = Some (lscores, lflags)
         \<and> metadata_of (ms_metadata st) ''iforest'' = Inr imd
         \<and> metadata_of (ms_metadata st) ''lof'' = Inr lmd
         \<and> es = ensemble_scores (cfg_ensemble_weights cfg) imd lmd iscores lscores
         \<and> ef = map (\<lambda>(a, b). of_bool (\<not> (a = 0 \<and> b = 0))) (zip iflags lflags))"
  using assms
  by (auto simp: compute_ensemble_def bind_result_Inr getitem_def split: if_splits option.splits)

lemma score_records_Inr:
  assumes "score_records st records sel = Inr scores"
  shows "\<exists>cfg X computed ens.
           ms_config st = Some cfg
         \<and> length X = length records
         \<and> compute_requested st (models_to_compute (lower sel)) X = Inr computed
         \<and> compute_ensemble cfg st (lower sel) computed = Inr ens
         \<and> scores = map (\<lambda>i. build_result computed ens i (records ! i)) [0..<length records]"
proof -
  from assms obtain cfg pp X computed ens where
    cfg: "ms_config st = Some cfg"
    and X: "transform pp (fst (prepare_features (DataFrame (map model_dump records))
                                 (cfg_features cfg) False)) = Inr X"
    and c: "compute_requested st (models_to_compute (lower sel)) X = Inr computed"
    and e: "compute_ensemble cfg st (lower sel) computed = Inr ens"
    and s: "scores = map (\<lambda>i. build_result computed ens i (records ! i)) [0..<length records]"
    by (auto simp: score_records_def bind_result_Inr Let_def split: if_splits option.splits)
  have "length X = length records"
    using transform_length[OF X] by (simp add: prepare_features_rows DataFrame_def)
  with cfg c e s show ?thesis by blast
qed


lemma results_table_Inr:
  assumes "results_table df is ia ls la es ea = Inr results" and "p \<in> set results"
  shows "\<exists>i < length (rows df). p_iforest_score p = is ! i \<and> p_iforest_anomaly p = ia ! i
           \<and> p_lof_score p = ls ! i \<and> p_lof_anomaly p = la ! i
           \<and> p_ensemble_score p = es ! i \<and> p_ensemble_anomaly p = ea ! i"
proof -
  from assms obtain i where "i < length (rows df)"
    and "p_iforest_score p = is ! i \<and> p_iforest_anomaly p = ia ! i
           \<and> p_lof_score p = ls ! i \<and> p_lof_anomaly p = la ! i
           \<and> p_ensemble_score p = es ! i \<and> p_ensemble_anomaly p = ea ! i"
    by (auto simp: results_table_def bind_result_Inr Let_def)
  then show ?thesis by blast
qed

lemma build_result_in_scores:
  assumes "score_records st records sel = Inr scores" and "s \<in> set scores"
  shows "\<exists>cfg X computed ens i.
           ms_config st = Some cfg \<and> length X = length records \<and> i < length records
         \<and> compute_requested st (models_to_compute (lower sel)) X = Inr computed
         \<and> compute_ensemble cfg st (lower sel) computed = Inr ens
         \<and> s = build_result computed ens i (records ! i)"
proof -
  from score_records_Inr[OF assms(1)] obtain cfg X computed ens where
    *: "ms_config st = Some cfg" "length X = length records"
       "compute_requested st (models_to_compute (lower sel)) X = Inr computed"
       "compute_ensemble cfg st (lower sel) computed = Inr ens"
       "scores = map (\<lambda>i. build_result computed ens i (records ! i)) [0..<length records]"
    by blast
  with assms(2) obtain i where "i < length records" "s = build_result computed ens i (records ! i)"
    by auto
  with * show ?thesis by blast
qed

lemma build_result_model_entry:
  assumes "n \<noteq> ''ensemble''"
  shows "map_of (as_is_anomaly (build_result computed ens i r)) n
           = map_option (\<lambda>(arr, flags). flags ! i) (map_of computed n)"
    and "map_of (as_scores (build_result computed ens i r)) n
           = map_option (\<lambda>(arr, flags). Finite (arr ! i)) (map_of computed n)"
  using assms
  by (auto simp: build_result_def Let_def update_conv' map_of_is_anomaly_dict map_of_scores_dict
           split: option.splits)

lemma predict_flags:
  assumes "predict_batch w cfg arts = Inr results"
  shows "\<exists>imd lmd. metadata_of (a_metadata arts) ''iforest'' = Inr imd
           \<and> metadata_of (a_metadata arts) ''lof'' = Inr lmd
           \<and> (\<forall>p \<in> set results.
                  (p_iforest_anomaly p \<longleftrightarrow> md_threshold imd \<le> p_iforest_score p)
                \<and> (p_lof_anomaly p \<longleftrightarrow> md_threshold lmd \<le> p_lof_score p)
                \<and> (p_ensemble_anomaly p \<longleftrightarrow> p_iforest_anomaly p \<or> p_lof_anomaly p))"
proof -
  from predict_batch_Inr[OF assms] obtain df iscores lscores imd lmd where
    imd: "metadata_of (a_metadata arts) ''iforest'' = Inr imd"
    and lmd: "metadata_of (a_metadata arts) ''lof'' = Inr lmd"
    and len: "length iscores = length (rows df)" "length lscores = length (rows df)"
    and res: "results_table df iscores (map (\<lambda>s. md_threshold imd \<le> s) iscores)
              lscores (map (\<lambda>s. md_threshold lmd \<le> s) lscores)
              (ensemble_scores (cfg_ensemble_weights cfg) imd lmd iscores lscores)
              (map (\<lambda>(a, b). a \<or> b) (zip (map (\<lambda>s. md_threshold imd \<le> s) iscores)
                                           (map (\<lambda>s. md_threshold lmd \<le> s) lscores)))
            = Inr results"
    by auto
  have "(p_iforest_anomaly p \<longleftrightarrow> md_threshold imd \<le> p_iforest_score p)
      \<and> (p_lof_anomaly p \<longleftrightarrow> md_threshold lmd \<le> p_lof_score p)
      \<and> (p_ensemble_anomaly p \<longleftrightarrow> p_iforest_anomaly p \<or> p_lof_anomaly p)"
    if "p \<in> set results" for p
  proof -
    from results_table_Inr[OF res that] obtain i where "i < length (rows df)"
      and "p_iforest_score p = iscores ! i"
      and "p_iforest_anomaly p = map (\<lambda>s. md_threshold imd \<le> s) iscores ! i"
      and "p_lof_score p = lscores ! i"
      and "p_lof_anomaly p = map (\<lambda>s. md_threshold lmd \<le> s) lscores ! i"
      and "p_ensemble_anomaly p = map (\<lambda>(a, b). a \<or> b) (zip (map (\<lambda>s. md_threshold imd \<le> s) iscores)
                                           (map (\<lambda>s. md_threshold lmd \<le> s) lscores)) ! i"
      by blast
    then show ?thesis using len by simp
  qed
  with imd lmd show ?thesis by blast
qed

lemma service_model_flag:
  assumes "score_records st records sel = Inr scores" and "s \<in> set scores"
    and "map_of (as_is_anomaly s) n = Some f" and "n \<noteq> ''ensemble''"
  shows "\<exists>x md. map_of (as_scores s) n = Some (Finite x)
           \<and> metadata_of (ms_metadata st) n = Inr md
           \<and> f = of_bool (md_threshold md \<le> x)"
proof -
  from build_result_in_scores[OF assms(1,2)] obtain X computed ens i where
    len: "length X = length records" "i < length records"
    and c: "compute_requested st (models_to_compute (lower sel)) X = Inr computed"
    and s: "s = build_result computed ens i (records ! i)"
    by blast
  from assms(3) s build_result_model_entry(1)[OF assms(4)] obtain arr flags where
    look: "map_of computed n = Some (arr, flags)" and f: "f = flags ! i"
    by fastforce
  from compute_requested_lookup[OF c look] obtain md where
    md: "metadata_of (ms_metadata st) n = Inr md" "length arr = length X"
        "flags = map (\<lambda>s. of_bool (md_threshold md \<le> s)) arr"
    by blast
  have "map_of (as_scores s) n = Some (Finite (arr ! i))"
    using s look build_result_model_entry(2)[OF assms(4)] by simp
  moreover have "f = of_bool (md_threshold md \<le> arr ! i)"
    using f md len by simp
  ultimately show ?thesis using md(1) by blast
qed

lemma service_ensemble_flag:
  assumes "score_records st records sel = Inr scores" and "s \<in> set scores"
    and "lower sel = ''both''"
  shows "\<exists>a b. map_of (as_is_anomaly s) ''iforest'' = Some (of_bool a)
           \<and> map_of (as_is_anomaly s) ''lof'' = Some (of_bool b)
           \<and> map_of (as_is_anomaly s) ''ensemble'' = Some (of_bool (a \<or> b))"
proof -
  from build_result_in_scores[OF assms(1,2)] assms(3) obtain cfg X computed ens i where
    len: "length X = length records" "i < length records"
    and c: "compute_requested st (models_to_compute ''both'') X = Inr computed"
    and e: "compute_ensemble cfg st ''both'' computed = Inr ens"
    and s: "s = build_result computed ens i (records ! i)"
    by auto
  from compute_requested_present[OF c, of "''iforest''"]
       compute_requested_present[OF c, of "''lof''"]
  obtain iscores iflags lscores lflags where
    li: "map_of computed ''iforest'' = Some (iscores, iflags)"
    and ll: "map_of computed ''lof'' = Some (lscores, lflags)"
    by (auto simp: models_to_compute_def)
  from compute_requested_lookup[OF c li] obtain imd :: metadata where
    i: "length iscores = length X" "iflags = map (\<lambda>s. of_bool (md_threshold imd \<le> s)) iscores"
    by blast
  from compute_requested_lookup[OF c ll] obtain lmd :: metadata where
    l: "length lscores = length X" "lflags = map (\<lambda>s. of_bool (md_threshold lmd \<le> s)) lscores"
    by blast
  from compute_ensemble_both[OF e li ll] obtain es where
    ens: "ens = Some (es, map (\<lambda>(a, b). of_bool (\<not> (a = 0 \<and> b = 0))) (zip iflags lflags))"
    by blast
  let ?a = "md_threshold imd \<le> iscores ! i" and ?b = "md_threshold lmd \<le> lscores ! i"
  have "map_of (as_is_anomaly s) ''iforest'' = Some (of_bool ?a)"
    using build_result_model_entry(1)[of "''iforest''" computed ens i "records ! i"] s li i len by simp
  moreover have "map_of (as_is_anomaly s) ''lof'' = Some (of_bool ?b)"
    using build_result_model_entry(1)[of "''lof''" computed ens i "records ! i"] s ll l len by simp
  moreover have "map_of (as_is_anomaly s) ''ensemble'' = Some (of_bool (?a \<or> ?b))"
    using s ens i l len by (simp add: build_result_def update_conv')
  ultimately show ?thesis by blast
qed


lemma epsilon_pos: "0 < epsilon"
  by (simp add: epsilon_def)

lemma denominator_pos: "stat_min ss \<le> stat_max ss \<Longrightarrow> 0 < denominator ss"
  using epsilon_pos by (simp add: denominator_def add_pos_nonneg add.commute)

lemma normalized_range:
  assumes "stat_min ss \<le> stat_max ss"
  shows "\<exists>x. normalized ss s = Finite x \<and> 0 \<le> x \<and> x \<le> 1"
  using denominator_pos[OF assms] by (simp add: normalized_def np_divide_def)

lemma ensemble_score_range:
  assumes "0 \<le> wi" "0 \<le> wl" "wi + wl = 1"
    and "0 \<le> x" "x \<le> 1" "0 \<le> y" "y \<le> 1"
  shows "\<exists>z. ensemble_score wi wl (Finite x) (Finite y) = Finite z \<and> 0 \<le> z \<and> z \<le> 1"
proof -
  have "wi * x \<le> wi * 1" "wl * y \<le> wl * 1"
    using assms by (simp_all add: mult_left_le)
  then have "wi * x + wl * y \<le> 1" using assms(3) by simp
  moreover have "0 \<le> wi * x + wl * y" using assms by simp
  ultimately show ?thesis by (simp add: ensemble_score_def)
qed

lemma ensemble_scores_nth:
  assumes "i < length iscores" "length lscores = length iscores"
  shows "ensemble_scores weights imd lmd iscores lscores ! i
           = ensemble_score (dict_get weights ''iforest'' (1 / 2)) (dict_get weights ''lof'' (1 / 2))
               (normalized (md_score_stats imd) (iscores ! i))
               (normalized (md_score_stats lmd) (lscores ! i))"
  using assms by (simp add: ensemble_scores_def Let_def)

lemma ensemble_scores_range:
  assumes "i < length iscores" "length lscores = length iscores"
    and "0 \<le> dict_get weights ''iforest'' (1 / 2)" "0 \<le> dict_get weights ''lof'' (1 / 2)"
    and "dict_get weights ''iforest'' (1 / 2) + dict_get weights ''lof'' (1 / 2) = 1"
    and "stat_min (md_score_stats imd) \<le> stat_max (md_score_stats imd)"
    and "stat_min (md_score_stats lmd) \<le> stat_max (md_score_stats lmd)"
  shows "\<exists>z. ensemble_scores weights imd lmd iscores lscores ! i = Finite z \<and> 0 \<le> z \<and> z \<le> 1"
proof -
  from normalized_range[OF assms(6)] obtain x where
    x: "normalized (md_score_stats imd) (iscores ! i) = Finite x" "0 \<le> x" "x \<le> 1" by blast
  from normalized_range[OF assms(7)] obtain y where
    y: "normalized (md_score_stats lmd) (lscores ! i) = Finite y" "0 \<le> y" "y \<le> 1" by blast
  show ?thesis
    using ensemble_score_range[OF assms(3,4,5) x(2,3) y(2,3)] x(1) y(1)
    by (simp add: ensemble_scores_nth[OF assms(1,2)])
qed

lemma predict_ensemble_range:
  assumes "predict_batch w cfg arts = Inr results" and "p \<in> set results"
    and "metadata_of (a_metadata arts) ''iforest'' = Inr imd"
    and "metadata_of (a_metadata arts) ''lof'' = Inr lmd"
    and "stat_min (md_score_stats imd) \<le> stat_max (md_score_stats imd)"
    and "stat_min (md_score_stats lmd) \<le> stat_max (md_score_stats lmd)"
    and "0 \<le> dict_get (cfg_ensemble_weights cfg) ''iforest'' (1 / 2)"
    and "0 \<le> dict_get (cfg_ensemble_weights cfg) ''lof'' (1 / 2)"
    and "dict_get (cfg_ensemble_weights cfg) ''iforest'' (1 / 2)
           + dict_get (cfg_ensemble_weights cfg) ''lof'' (1 / 2) = 1"
  shows "\<exists>z. p_ensemble_score p = Finite z \<and> 0 \<le> z \<and> z \<le> 1"
proof -
  from predict_batch_Inr[OF assms(1)] assms(3,4) obtain df iscores lscores where
    len: "length iscores = length (rows df)" "length lscores = length (rows df)"
    and res: "results_table df iscores (map (\<lambda>s. md_threshold imd \<le> s) iscores)
              lscores (map (\<lambda>s. md_threshold lmd \<le> s) lscores)
              (ensemble_scores (cfg_ensemble_weights cfg) imd lmd iscores lscores)
              (map (\<lambda>(a, b). a \<or> b) (zip (map (\<lambda>s. md_threshold imd \<le> s) iscores)
                                           (map (\<lambda>s. md_threshold lmd \<le> s) lscores)))
            = Inr results"
    by auto
  from results_table_Inr[OF res assms(2)] obtain i where
    i: "i < length (rows df)"
       "p_ensemble_score p = ensemble_scores (cfg_ensemble_weights cfg) imd lmd iscores lscores ! i"
    by blast
  show ?thesis
    using ensemble_scores_range[OF _ _ assms(7,8,9,5,6), of i iscores lscores] i len by simp
qed

lemma service_ensemble_range:
  assumes "score_records st records sel = Inr scores" and "s \<in> set scores"
    and "map_of (as_scores s) ''ensemble'' = Some v"
    and "ms_config st = Some cfg"
    and "metadata_of (ms_metadata st) ''iforest'' = Inr imd"
    and "metadata_of (ms_metadata st) ''lof'' = Inr lmd"
    and "stat_min (md_score_stats imd) \<le> stat_max (md_score_stats imd)"
    and "stat_min (md_score_stats lmd) \<le> stat_max (md_score_stats lmd)"
    and "0 \<le> dict_get (cfg_ensemble_weights cfg) ''iforest'' (1 / 2)"
    and "0 \<le> dict_get (cfg_ensemble_weights cfg) ''lof'' (1 / 2)"
    and "dict_get (cfg_ensemble_weights cfg) ''iforest'' (1 / 2)
           + dict_get (cfg_ensemble_weights cfg) ''lof'' (1 / 2) = 1"
  shows "\<exists>z. v = Finite z \<and> 0 \<le> z \<and> z \<le> 1"
proof -
  from build_result_in_scores[OF assms(1,2)] assms(4) obtain X computed ens i where
    len: "length X = length records" "i < length records"
    and c: "compute_requested st (models_to_compute (lower sel)) X = Inr computed"
    and e: "compute_ensemble cfg st (lower sel) computed = Inr ens"
    and s: "s = build_result computed ens i (records ! i)"
    by auto
  have no_model: "map_of computed ''ensemble'' = None"
  proof (cases "map_of computed ''ensemble''")
    case (Some a)
    then show ?thesis
      using compute_requested_lookup[OF c, of "''ensemble''" "fst a" "snd a"] by simp
  qed simp
  obtain es ef where ens: "ens = Some (es, ef)" and v: "v = es ! i"
    using assms(3) s no_model
    by (cases ens) (auto simp: build_result_def Let_def update_conv' map_of_scores_dict)
  from compute_ensemble_Some[OF e[unfolded ens]] assms(5,6) obtain iscores iflags lscores lflags where
    li: "map_of computed ''iforest'' = Some (iscores, iflags)"
    and ll: "map_of computed ''lof'' = Some (lscores, lflags)"
    and es: "es = ensemble_scores (cfg_ensemble_weights cfg) imd lmd iscores lscores"
    by auto
  have "length iscores = length X" "length lscores = length X"
    using compute_requested_lookup[OF c li] compute_requested_lookup[OF c ll] by auto
  then show ?thesis
    using ensemble_scores_range[OF _ _ assms(9,10,11,7,8), of i iscores lscores] len v es by simp
qed

section \<open>The worked configuration, evaluated\<close>

lemma example_predict_batch:
  "predict_batch example_world example_config example_artifacts = Inr example_predictions"
  by code_simp

lemma example_score_records:
  "score_records example_state example_records ''both'' = Inr example_scores"
  by code_simp

lemma example_metadata_of:
  "metadata_of (a_metadata example_artifacts) ''iforest'' = Inr example_iforest_metadata"
  "metadata_of (a_metadata example_artifacts) ''lof'' = Inr example_lof_metadata"
  "metadata_of (ms_metadata example_state) ''iforest'' = Inr example_iforest_metadata"
  "metadata_of (ms_metadata example_state) ''lof'' = Inr example_lof_metadata"
  by (simp_all add: metadata_of_def bind_result_def getitem_def example_artifacts_def example_state_def)

section \<open>Flags and thresholds\<close>

text \<open>
  C8. In the batch path and in the serving path, a model flags a record exactly when the
  record's score, as reported, is at least the threshold in that model's metadata. In the
  serving path the flag is the integer 1 or 0.
\<close>

theorem per_model_flag_iff_threshold:
  "(predict_batch w cfg arts = Inr results \<and> p \<in> set results \<longrightarrow>
      (\<exists>imd lmd. metadata_of (a_metadata arts) ''iforest'' = Inr imd
         \<and> metadata_of (a_metadata arts) ''lof'' = Inr lmd
         \<and> (p_iforest_anomaly p \<longleftrightarrow> md_threshold imd \<le> p_iforest_score p)
         \<and> (p_lof_anomaly p \<longleftrightarrow> md_threshold lmd \<le> p_lof_score p)))
   \<and> (score_records st records sel = Inr scores \<and> s \<in> set scores
        \<and> map_of (as_is_anomaly s) n = Some f \<and> n \<noteq> ''ensemble'' \<longrightarrow>
      (\<exists>x md. map_of (as_scores s) n = Some (Finite x)
         \<and> metadata_of (ms_metadata st) n = Inr md
         \<and> f = of_bool (md_threshold md \<le> x)))"
proof (intro conjI impI)
  assume "predict_batch w cfg arts = Inr results \<and> p \<in> set results"
  then show "\<exists>imd lmd. metadata_of (a_metadata arts) ''iforest'' = Inr imd
         \<and> metadata_of (a_metadata arts) ''lof'' = Inr lmd
         \<and> (p_iforest_anomaly p \<longleftrightarrow> md_threshold imd \<le> p_iforest_score p)
         \<and> (p_lof_anomaly p \<longleftrightarrow> md_threshold lmd \<le> p_lof_score p)"
    using predict_flags[of w cfg arts results] by blast
next
  assume "score_records st records sel = Inr scores \<and> s \<in> set scores
        \<and> map_of (as_is_anomaly s) n = Some f \<and> n \<noteq> ''ensemble''"
  then show "\<exists>x md. map_of (as_scores s) n = Some (Finite x)
         \<and> metadata_of (ms_metadata st) n = Inr md
         \<and> f = of_bool (md_threshold md \<le> x)"
    using service_model_flag[of st records sel scores s n f] by blast
qed

theorem per_model_flag_iff_threshold_witness:
  "predict_batch example_world example_config example_artifacts = Inr example_predictions
   \<and> example_prediction ''b'' ''t2'' (4 / 5) True 1 False (1 / 2) True \<in> set example_predictions
   \<and> (True \<longleftrightarrow> md_threshold example_iforest_metadata \<le> 4 / 5)
   \<and> (False \<longleftrightarrow> md_threshold example_lof_metadata \<le> 1)
   \<and> score_records example_state example_records ''both'' = Inr example_scores
   \<and> example_score ''a'' (1 / 10) 0 2 1 (1 / 2) 1 \<in> set example_scores
   \<and> map_of (as_is_anomaly (example_score ''a'' (1 / 10) 0 2 1 (1 / 2) 1)) ''lof'' = Some 1
   \<and> map_of (as_scores (example_score ''a'' (1 / 10) 0 2 1 (1 / 2) 1)) ''lof'' = Some (Finite 2)
   \<and> (1::int) = of_bool (md_threshold example_lof_metadata \<le> 2)"
proof -
  let ?p = "example_prediction ''b'' ''t2'' (4 / 5) True 1 False (1 / 2) True"
  let ?s = "example_score ''a'' (1 / 10) 0 2 1 (1 / 2) 1"
  have h1: "predict_batch example_world example_config example_artifacts = Inr example_predictions
            \<and> ?p \<in> set example_predictions"
    by (simp add: example_predict_batch example_predictions_def)
  have h2: "score_records example_state example_records ''both'' = Inr example_scores
            \<and> ?s \<in> set example_scores \<and> map_of (as_is_anomaly ?s) ''lof'' = Some 1
            \<and> ''lof'' \<noteq> ''ensemble''"
    by (simp add: example_score_records example_scores_def example_score_def)
  note T = per_model_flag_iff_threshold[of example_world example_config example_artifacts
         example_predictions ?p example_state example_records "''both''" example_scores ?s "''lof''" 1]
  from T[THEN conjunct1, THEN mp, OF h1] obtain imd lmd where
    m: "metadata_of (a_metadata example_artifacts) ''iforest'' = Inr imd"
       "metadata_of (a_metadata example_artifacts) ''lof'' = Inr lmd"
    and c1: "p_iforest_anomaly ?p \<longleftrightarrow> md_threshold imd \<le> p_iforest_score ?p"
            "p_lof_anomaly ?p \<longleftrightarrow> md_threshold lmd \<le> p_lof_score ?p"
    by blast
  from m have imd: "imd = example_iforest_metadata" and lmd: "lmd = example_lof_metadata"
    by (simp_all add: example_metadata_of)
  from T[THEN conjunct2, THEN mp, OF h2] obtain x md where
    c2: "map_of (as_scores ?s) ''lof'' = Some (Finite x)"
        "metadata_of (ms_metadata example_state) ''lof'' = Inr md"
        "(1::int) = of_bool (md_threshold md \<le> x)"
    by blast
  from c2 have x: "x = 2" and md: "md = example_lof_metadata"
    by (simp_all add: example_metadata_of example_score_def)
  have r1: "True \<longleftrightarrow> md_threshold example_iforest_metadata \<le> 4 / 5"
    using c1(1) by (simp add: imd example_prediction_def)
  have r2: "False \<longleftrightarrow> md_threshold example_lof_metadata \<le> 1"
    using c1(2) by (simp add: lmd example_prediction_def)
  have r3: "(1::int) = of_bool (md_threshold example_lof_metadata \<le> 2)"
    using c2(3) by (simp only: x md)
  have r4: "map_of (as_scores ?s) ''lof'' = Some (Finite 2)"
    using c2(1) by (simp only: x)
  from h1 h2 r1 r2 r3 r4 show ?thesis by blast
qed


text \<open>
  C5. In the batch path the ensemble flag of a record is the disjunction of its two model
  flags. In the serving path, when both models are asked for, the three flags are
  reported as integers and the ensemble flag is 1 exactly when one of the model flags is
  1. The ensemble score plays no part in it.
\<close>

theorem ensemble_flag_is_or:
  "(predict_batch w cfg arts = Inr results \<and> p \<in> set results \<longrightarrow>
      (p_ensemble_anomaly p \<longleftrightarrow> p_iforest_anomaly p \<or> p_lof_anomaly p))
   \<and> (score_records st records sel = Inr scores \<and> s \<in> set scores \<and> lower sel = ''both'' \<longrightarrow>
      (\<exists>a b. map_of (as_is_anomaly s) ''iforest'' = Some (of_bool a)
         \<and> map_of (as_is_anomaly s) ''lof'' = Some (of_bool b)
         \<and> map_of (as_is_anomaly s) ''ensemble'' = Some (of_bool (a \<or> b))))"
proof (intro conjI impI)
  assume "predict_batch w cfg arts = Inr results \<and> p \<in> set results"
  then show "p_ensemble_anomaly p \<longleftrightarrow> p_iforest_anomaly p \<or> p_lof_anomaly p"
    using predict_flags[of w cfg arts results] by blast
next
  assume "score_records st records sel = Inr scores \<and> s \<in> set scores \<and> lower sel = ''both''"
  then show "\<exists>a b. map_of (as_is_anomaly s) ''iforest'' = Some (of_bool a)
         \<and> map_of (as_is_anomaly s) ''lof'' = Some (of_bool b)
         \<and> map_of (as_is_anomaly s) ''ensemble'' = Some (of_bool (a \<or> b))"
    using service_ensemble_flag[of st records sel scores s] by blast
qed

lemma lower_both: "lower ''both'' = ''both''"
  by code_simp

theorem ensemble_flag_is_or_witness:
  "predict_batch example_world example_config example_artifacts = Inr example_predictions
   \<and> example_prediction ''b'' ''t2'' (4 / 5) True 1 False (1 / 2) True \<in> set example_predictions
   \<and> (p_ensemble_anomaly (example_prediction ''b'' ''t2'' (4 / 5) True 1 False (1 / 2) True)
        \<longleftrightarrow> p_iforest_anomaly (example_prediction ''b'' ''t2'' (4 / 5) True 1 False (1 / 2) True)
           \<or> p_lof_anomaly (example_prediction ''b'' ''t2'' (4 / 5) True 1 False (1 / 2) True))
   \<and> map (\<lambda>p. (p_iforest_anomaly p, p_lof_anomaly p, p_ensemble_anomaly p)) example_predictions
        = [(False, True, True), (True, False, True), (True, True, True), (False, False, False)]
   \<and> score_records example_state example_records ''both'' = Inr example_scores
   \<and> example_score ''a'' (1 / 10) 0 2 1 (1 / 2) 1 \<in> set example_scores
   \<and> lower ''both'' = ''both''
   \<and> (\<exists>a b. map_of (as_is_anomaly (example_score ''a'' (1 / 10) 0 2 1 (1 / 2) 1)) ''iforest''
                 = Some (of_bool a)
         \<and> map_of (as_is_anomaly (example_score ''a'' (1 / 10) 0 2 1 (1 / 2) 1)) ''lof''
                 = Some (of_bool b)
         \<and> map_of (as_is_anomaly (example_score ''a'' (1 / 10) 0 2 1 (1 / 2) 1)) ''ensemble''
                 = Some (of_bool (a \<or> b)))
   \<and> map as_is_anomaly example_scores
        = [[(''iforest'', 0), (''lof'', 1), (''ensemble'', 1)],
           [(''iforest'', 1), (''lof'', 0), (''ensemble'', 1)],
           [(''iforest'', 1), (''lof'', 1), (''ensemble'', 1)],
           [(''iforest'', 0), (''lof'', 0), (''ensemble'', 0)]]"
proof -
  let ?p = "example_prediction ''b'' ''t2'' (4 / 5) True 1 False (1 / 2) True"
  let ?s = "example_score ''a'' (1 / 10) 0 2 1 (1 / 2) 1"
  have h1: "predict_batch example_world example_config example_artifacts = Inr example_predictions
            \<and> ?p \<in> set example_predictions"
    by (simp add: example_predict_batch example_predictions_def)
  have h2: "score_records example_state example_records ''both'' = Inr example_scores
            \<and> ?s \<in> set example_scores \<and> lower ''both'' = ''both''"
    by (simp add: example_score_records example_scores_def lower_both)
  note T = ensemble_flag_is_or[of example_world example_config example_artifacts
         example_predictions ?p example_state example_records "''both''" example_scores ?s]
  note c1 = T[THEN conjunct1, THEN mp, OF h1]
  note c2 = T[THEN conjunct2, THEN mp, OF h2]
  have e1: "map (\<lambda>p. (p_iforest_anomaly p, p_lof_anomaly p, p_ensemble_anomaly p)) example_predictions
        = [(False, True, True), (True, False, True), (True, True, True), (False, False, False)]"
    by (simp add: example_predictions_def example_prediction_def)
  have e2: "map as_is_anomaly example_scores
        = [[(''iforest'', 0), (''lof'', 1), (''ensemble'', 1)],
           [(''iforest'', 1), (''lof'', 0), (''ensemble'', 1)],
           [(''iforest'', 1), (''lof'', 1), (''ensemble'', 1)],
           [(''iforest'', 0), (''lof'', 0), (''ensemble'', 0)]]"
    by (simp add: example_scores_def example_score_def)
  from h1 h2 c1 c2 e1 e2 show ?thesis by (intro conjI) (erule conjunct1 conjunct2 | assumption | simp)+
qed

section \<open>The ensemble score\<close>

text \<open>
  C6. With non-negative weights that sum to 1 and training statistics whose minimum does
  not exceed their maximum, the ensemble score of every record is a number between 0 and
  1: for the weighted sum of the two normalised scores itself, in the batch path and in
  the serving path.
\<close>

theorem ensemble_score_in_unit_interval:
  "0 \<le> dict_get (cfg_ensemble_weights cfg) ''iforest'' (1 / 2)
   \<and> 0 \<le> dict_get (cfg_ensemble_weights cfg) ''lof'' (1 / 2)
   \<and> dict_get (cfg_ensemble_weights cfg) ''iforest'' (1 / 2)
       + dict_get (cfg_ensemble_weights cfg) ''lof'' (1 / 2) = 1
   \<and> stat_min (md_score_stats imd) \<le> stat_max (md_score_stats imd)
   \<and> stat_min (md_score_stats lmd) \<le> stat_max (md_score_stats lmd) \<longrightarrow>
     (\<exists>z. ensemble_score (dict_get (cfg_ensemble_weights cfg) ''iforest'' (1 / 2))
             (dict_get (cfg_ensemble_weights cfg) ''lof'' (1 / 2))
             (normalized (md_score_stats imd) si) (normalized (md_score_stats lmd) sl) = Finite z
          \<and> 0 \<le> z \<and> z \<le> 1)
   \<and> (predict_batch w cfg arts = Inr results \<and> p \<in> set results
        \<and> metadata_of (a_metadata arts) ''iforest'' = Inr imd
        \<and> metadata_of (a_metadata arts) ''lof'' = Inr lmd \<longrightarrow>
          (\<exists>z. p_ensemble_score p = Finite z \<and> 0 \<le> z \<and> z \<le> 1))
   \<and> (score_records st records sel = Inr scores \<and> s \<in> set scores
        \<and> map_of (as_scores s) ''ensemble'' = Some v \<and> ms_config st = Some cfg
        \<and> metadata_of (ms_metadata st) ''iforest'' = Inr imd
        \<and> metadata_of (ms_metadata st) ''lof'' = Inr lmd \<longrightarrow>
          (\<exists>z. v = Finite z \<and> 0 \<le> z \<and> z \<le> 1))"
proof (intro impI conjI)
  assume a: "0 \<le> dict_get (cfg_ensemble_weights cfg) ''iforest'' (1 / 2)
   \<and> 0 \<le> dict_get (cfg_ensemble_weights cfg) ''lof'' (1 / 2)
   \<and> dict_get (cfg_ensemble_weights cfg) ''iforest'' (1 / 2)
       + dict_get (cfg_ensemble_weights cfg) ''lof'' (1 / 2) = 1
   \<and> stat_min (md_score_stats imd) \<le> stat_max (md_score_stats imd)
   \<and> stat_min (md_score_stats lmd) \<le> stat_max (md_score_stats lmd)"
  from a normalized_range[of "md_score_stats imd" si] obtain x where
    x: "normalized (md_score_stats imd) si = Finite x" "0 \<le> x" "x \<le> 1" by blast
  from a normalized_range[of "md_score_stats lmd" sl] obtain y where
    y: "normalized (md_score_stats lmd) sl = Finite y" "0 \<le> y" "y \<le> 1" by blast
  show "\<exists>z. ensemble_score (dict_get (cfg_ensemble_weights cfg) ''iforest'' (1 / 2))
             (dict_get (cfg_ensemble_weights cfg) ''lof'' (1 / 2))
             (normalized (md_score_stats imd) si) (normalized (md_score_stats lmd) sl) = Finite z
          \<and> 0 \<le> z \<and> z \<le> 1"
    using a ensemble_score_range[OF _ _ _ x(2,3) y(2,3)] by (simp add: x(1) y(1))
  show "\<exists>z. p_ensemble_score p = Finite z \<and> 0 \<le> z \<and> z \<le> 1"
    if "predict_batch w cfg arts = Inr results \<and> p \<in> set results
        \<and> metadata_of (a_metadata arts) ''iforest'' = Inr imd
        \<and> metadata_of (a_metadata arts) ''lof'' = Inr lmd"
    using a that predict_ensemble_range[of w cfg arts results p imd lmd] by blast
  show "\<exists>z. v = Finite z \<and> 0 \<le> z \<and> z \<le> 1"
    if "score_records st records sel = Inr scores \<and> s \<in> set scores
        \<and> map_of (as_scores s) ''ensemble'' = Some v \<and> ms_config st = Some cfg
        \<and> metadata_of (ms_metadata st) ''iforest'' = Inr imd
        \<and> metadata_of (ms_metadata st) ''lof'' = Inr lmd"
    using a that service_ensemble_range[of st records sel scores s v cfg imd lmd] by blast
qed


lemma example_weights:
  "dict_get (cfg_ensemble_weights example_config) ''iforest'' (1 / 2) = 1 / 2"
  "dict_get (cfg_ensemble_weights example_config) ''lof'' (1 / 2) = 1 / 2"
  by (simp_all add: example_config_def dict_get_def)

theorem ensemble_score_in_unit_interval_witness:
  "0 \<le> dict_get (cfg_ensemble_weights example_config) ''iforest'' (1 / 2)
   \<and> 0 \<le> dict_get (cfg_ensemble_weights example_config) ''lof'' (1 / 2)
   \<and> dict_get (cfg_ensemble_weights example_config) ''iforest'' (1 / 2)
       + dict_get (cfg_ensemble_weights example_config) ''lof'' (1 / 2) = 1
   \<and> stat_min (md_score_stats example_iforest_metadata) \<le> stat_max (md_score_stats example_iforest_metadata)
   \<and> stat_min (md_score_stats example_lof_metadata) \<le> stat_max (md_score_stats example_lof_metadata)
   \<and> (\<exists>z. ensemble_score (1 / 2) (1 / 2)
             (normalized (md_score_stats example_iforest_metadata) (3 / 10))
             (normalized (md_score_stats example_lof_metadata) 7) = Finite z \<and> 0 \<le> z \<and> z \<le> 1)
   \<and> predict_batch example_world example_config example_artifacts = Inr example_predictions
   \<and> example_prediction ''c'' ''t3'' (4 / 5) True 2 True 1 True \<in> set example_predictions
   \<and> (\<exists>z. p_ensemble_score (example_prediction ''c'' ''t3'' (4 / 5) True 2 True 1 True) = Finite z
          \<and> 0 \<le> z \<and> z \<le> 1)
   \<and> score_records example_state example_records ''both'' = Inr example_scores
   \<and> example_score ''a'' (1 / 10) 0 2 1 (1 / 2) 1 \<in> set example_scores
   \<and> map_of (as_scores (example_score ''a'' (1 / 10) 0 2 1 (1 / 2) 1)) ''ensemble'' = Some (Finite (1 / 2))
   \<and> (\<exists>z. Finite (1 / 2) = Finite z \<and> 0 \<le> z \<and> z \<le> 1)"
proof -
  let ?p = "example_prediction ''c'' ''t3'' (4 / 5) True 2 True 1 True"
  let ?s = "example_score ''a'' (1 / 10) 0 2 1 (1 / 2) 1"
  have h0: "0 \<le> dict_get (cfg_ensemble_weights example_config) ''iforest'' (1 / 2)
   \<and> 0 \<le> dict_get (cfg_ensemble_weights example_config) ''lof'' (1 / 2)
   \<and> dict_get (cfg_ensemble_weights example_config) ''iforest'' (1 / 2)
       + dict_get (cfg_ensemble_weights example_config) ''lof'' (1 / 2) = 1
   \<and> stat_min (md_score_stats example_iforest_metadata) \<le> stat_max (md_score_stats example_iforest_metadata)
   \<and> stat_min (md_score_stats example_lof_metadata) \<le> stat_max (md_score_stats example_lof_metadata)"
    by (simp add: example_weights example_iforest_metadata_def example_lof_metadata_def)
  have h1: "predict_batch example_world example_config example_artifacts = Inr example_predictions
        \<and> ?p \<in> set example_predictions
        \<and> metadata_of (a_metadata example_artifacts) ''iforest'' = Inr example_iforest_metadata
        \<and> metadata_of (a_metadata example_artifacts) ''lof'' = Inr example_lof_metadata"
    by (simp add: example_predict_batch example_predictions_def example_metadata_of)
  have h2: "score_records example_state example_records ''both'' = Inr example_scores
        \<and> ?s \<in> set example_scores
        \<and> map_of (as_scores ?s) ''ensemble'' = Some (Finite (1 / 2))
        \<and> ms_config example_state = Some example_config
        \<and> metadata_of (ms_metadata example_state) ''iforest'' = Inr example_iforest_metadata
        \<and> metadata_of (ms_metadata example_state) ''lof'' = Inr example_lof_metadata"
    by (simp add: example_score_records example_scores_def example_metadata_of)
       (simp add: example_score_def example_state_def)
  note T = ensemble_score_in_unit_interval[of example_config example_iforest_metadata
         example_lof_metadata "3 / 10" 7 example_world example_artifacts example_predictions ?p
         example_state example_records "''both''" example_scores ?s "Finite (1 / 2)", THEN mp, OF h0]
  note c0 = T[THEN conjunct1, unfolded example_weights]
  note c1 = T[THEN conjunct2, THEN conjunct1, THEN mp, OF h1]
  note c2 = T[THEN conjunct2, THEN conjunct2, THEN mp, OF h2]
  from h0 h1 h2 c0 c1 c2 show ?thesis
    by (intro conjI) (erule conjunct1 conjunct2 | assumption | simp)+
qed

text \<open>
  C9. When the training minimum and maximum of a model coincide, the denominator of the
  normalisation is the epsilon \<open>1e-10\<close>, which is not zero, and the normalised score of
  every raw score is a number: 0 up to the training value, 1 from just above it.
\<close>

theorem degenerate_range_is_guarded:
  "stat_min ss = stat_max ss \<Longrightarrow>
     denominator ss = 1 / 10 ^ 10 \<and> denominator ss \<noteq> 0
     \<and> np_divide (s - stat_min ss) (denominator ss) = Finite ((s - stat_min ss) * 10 ^ 10)
     \<and> normalized ss s = Finite (min (max ((s - stat_min ss) * 10 ^ 10) 0) 1)"
  by (simp add: denominator_def epsilon_def normalized_def np_divide_def)

theorem degenerate_range_is_guarded_witness:
  "stat_min \<lparr>stat_min = 2, stat_max = 2, stat_mean = 2, stat_std = 0\<rparr>
     = stat_max \<lparr>stat_min = 2, stat_max = 2, stat_mean = 2, stat_std = 0\<rparr>
   \<and> denominator \<lparr>stat_min = 2, stat_max = 2, stat_mean = 2, stat_std = 0\<rparr> = 1 / 10 ^ 10
   \<and> normalized \<lparr>stat_min = 2, stat_max = 2, stat_mean = 2, stat_std = 0\<rparr> 2 = Finite 0
   \<and> normalized \<lparr>stat_min = 2, stat_max = 2, stat_mean = 2, stat_std = 0\<rparr> 3 = Finite 1"
proof -
  let ?ss = "\<lparr>stat_min = 2, stat_max = 2, stat_mean = 2, stat_std = 0\<rparr>"
  have h: "stat_min ?ss = stat_max ?ss" by simp
  from degenerate_range_is_guarded[OF h, of 2] degenerate_range_is_guarded[OF h, of 3] h
  show ?thesis by simp
qed

section \<open>Batch prediction needs both models\<close>

lemma predict_batch_requires_both:
  assumes "\<not> {''iforest'', ''lof''} \<subseteq> set (keys (a_models arts))"
  shows "predict_batch w cfg arts =
           (case load_csv w (dc_inference_path (cfg_data cfg)) of
              Inl e \<Rightarrow> Inl e
            | Inr df \<Rightarrow> Inl (RequiredModelsNotAvailable
                               ({''iforest'', ''lof''} - set (keys (a_models arts)))))"
proof -
  have "require_both arts =
          Inl (RequiredModelsNotAvailable ({''iforest'', ''lof''} - set (keys (a_models arts))))"
    using assms unfolding require_both_def Let_def by (simp only: if_False)
  then show ?thesis
    by (cases "load_csv w (dc_inference_path (cfg_data cfg))")
       (simp_all add: predict_batch_def bind_result_def)
qed

lemma load_artifacts_single:
  assumes "load_artifacts w cfg (Some n) = Inr arts" and "n \<noteq> []"
  shows "keys (a_models arts) = [n]"
proof -
  from assms obtain p m md where "arts = \<lparr>a_preprocessor = p, a_models = AList.update n m [],
                                           a_metadata = AList.update n md []\<rparr>"
    by (auto simp: load_artifacts_def models_to_load_def bind_result_Inr Let_def split: if_splits)
  then show ?thesis by (simp add: keys_def)
qed

lemma not_both_in_singleton: "\<not> {''iforest'', ''lof''} \<subseteq> set [n]"
  by auto

text \<open>
  C10. \<open>predict_batch\<close> fails whenever \<open>iforest\<close> or \<open>lof\<close> is not among the loaded models:
  with the error of the CSV load if that fails first, otherwise with "Required models not
  available", whatever the preprocessor, the models and the metadata are. A model name
  given on the command line makes \<open>load_artifacts\<close> load that model alone, so every run
  of \<open>main\<close> with a model name other than \<open>ensemble\<close> fails.
\<close>

theorem single_model_batch_predict_fails:
  "(\<not> {''iforest'', ''lof''} \<subseteq> set (keys (a_models arts)) \<longrightarrow>
      predict_batch w cfg arts =
        (case load_csv w (dc_inference_path (cfg_data cfg)) of
           Inl e \<Rightarrow> Inl e
         | Inr df \<Rightarrow> Inl (RequiredModelsNotAvailable
                            ({''iforest'', ''lof''} - set (keys (a_models arts))))))
   \<and> (load_artifacts w cfg (Some n) = Inr arts \<and> n \<noteq> [] \<longrightarrow> keys (a_models arts) = [n])
   \<and> (arg_model args \<noteq> ''ensemble'' \<and> arg_model args \<noteq> [] \<longrightarrow>
        (\<exists>e. predict_main w args = Inl e))"
proof (intro conjI impI)
  assume "\<not> {''iforest'', ''lof''} \<subseteq> set (keys (a_models arts))"
  then show "predict_batch w cfg arts =
        (case load_csv w (dc_inference_path (cfg_data cfg)) of
           Inl e \<Rightarrow> Inl e
         | Inr df \<Rightarrow> Inl (RequiredModelsNotAvailable
                            ({''iforest'', ''lof''} - set (keys (a_models arts)))))"
    by (rule predict_batch_requires_both)
next
  assume "load_artifacts w cfg (Some n) = Inr arts \<and> n \<noteq> []"
  then show "keys (a_models arts) = [n]"
    using load_artifacts_single by blast
next
  assume a: "arg_model args \<noteq> ''ensemble'' \<and> arg_model args \<noteq> []"
  show "\<exists>e. predict_main w args = Inl e"
  proof (cases "load_config w")
    case (Inl e)
    then show ?thesis by (simp add: predict_main_def bind_result_def)
  next
    case (Inr config0)
    let ?cfg = "override_paths config0 args"
    show ?thesis
    proof (cases "load_artifacts w ?cfg (Some (arg_model args))")
      case (Inl e)
      with Inr a show ?thesis by (simp add: predict_main_def bind_result_def Let_def)
    next
      case arts: (Inr arts)
      from load_artifacts_single[OF arts] a have "keys (a_models arts) = [arg_model args]"
        by simp
      then have "\<not> {''iforest'', ''lof''} \<subseteq> set (keys (a_models arts))"
        using not_both_in_singleton by simp
      from predict_batch_requires_both[OF this, of w ?cfg]
      obtain e where "predict_batch w ?cfg arts = Inl e"
        by (cases "load_csv w (dc_inference_path (cfg_data ?cfg))") auto
      with Inr arts a show ?thesis by (simp add: predict_main_def bind_result_def Let_def)
    qed
  qed
qed

lemma example_iforest_only:
  "load_artifacts example_world example_config (Some ''iforest'') = Inr iforest_only_artifacts"
  by (simp add: load_artifacts_def models_to_load_def bind_result_def joblib_load_def
        preprocessor_path_def model_path_def meta_path_def path_join_def
        example_world_def example_config_def iforest_only_artifacts_def)

lemma example_predict_main_iforest:
  "predict_main example_world iforest_args = Inl (RequiredModelsNotAvailable {''lof''})"
  by code_simp

theorem single_model_batch_predict_fails_witness:
  "\<not> {''iforest'', ''lof''} \<subseteq> set (keys (a_models iforest_only_artifacts))
   \<and> predict_batch example_world example_config iforest_only_artifacts
       = Inl (RequiredModelsNotAvailable {''lof''})
   \<and> load_artifacts example_world example_config (Some ''iforest'') = Inr iforest_only_artifacts
   \<and> ''iforest'' \<noteq> []
   \<and> keys (a_models iforest_only_artifacts) = [''iforest'']
   \<and> arg_model iforest_args \<noteq> ''ensemble'' \<and> arg_model iforest_args \<noteq> []
   \<and> (\<exists>e. predict_main example_world iforest_args = Inl e)
   \<and> predict_main example_world iforest_args = Inl (RequiredModelsNotAvailable {''lof''})"
proof -
  have h1: "\<not> {''iforest'', ''lof''} \<subseteq> set (keys (a_models iforest_only_artifacts))"
    by (simp add: iforest_only_artifacts_def keys_def)
  have h2: "load_artifacts example_world example_config (Some ''iforest'') = Inr iforest_only_artifacts
            \<and> ''iforest'' \<noteq> []"
    by (simp add: example_iforest_only)
  have h3: "arg_model iforest_args \<noteq> ''ensemble'' \<and> arg_model iforest_args \<noteq> []"
    by (simp add: iforest_args_def)
  note T = single_model_batch_predict_fails[of iforest_only_artifacts example_world example_config
             "''iforest''" iforest_args]
  have c1: "predict_batch example_world example_config iforest_only_artifacts
       = Inl (RequiredModelsNotAvailable {''lof''})"
    using T[THEN conjunct1, THEN mp, OF h1]
    by (simp add: load_csv_def example_world_def example_config_def iforest_only_artifacts_def keys_def)
  note c2 = T[THEN conjunct2, THEN conjunct1, THEN mp, OF h2]
  note c3 = T[THEN conjunct2, THEN conjunct2, THEN mp, OF h3]
  from h1 h2 h3 c1 c2 c3 example_predict_main_iforest show ?thesis
    by (intro conjI) (erule conjunct1 conjunct2 | assumption | simp)+
qed

section \<open>Threshold calibration\<close>

lemma sorted_nth_0_Min:
  assumes "sorted xs" and "xs \<noteq> []"
  shows "xs ! 0 = Min (set xs)"
proof (cases xs)
  case Nil
  with assms show ?thesis by simp
next
  case (Cons y ys)
  with assms have "\<forall>z \<in> set xs. y \<le> z" by auto
  then have "Min (set xs) = y"
    using Cons by (intro Min_eqI) auto
  with Cons show ?thesis by simp
qed

lemma sorted_last_Max:
  assumes "sorted xs" and "xs \<noteq> []"
  shows "xs ! (length xs - 1) = Max (set xs)"
proof -
  have "\<forall>z \<in> set xs. z \<le> xs ! (length xs - 1)"
  proof
    fix z assume "z \<in> set xs"
    then obtain i where "i < length xs" "z = xs ! i" by (auto simp: in_set_conv_nth)
    with assms show "z \<le> xs ! (length xs - 1)"
      by (auto intro!: sorted_nth_mono)
  qed
  moreover have "xs ! (length xs - 1) \<in> set xs" using assms by simp
  ultimately show ?thesis by (intro Max_eqI[symmetric]) auto
qed

lemma percentile_100:
  assumes "a \<noteq> []"
  shows "percentile a 100 = Inr (Max (set a))"
proof -
  have "sort a \<noteq> []" using assms by (metis length_0_conv length_sort)
  then have "sort a ! (length (sort a) - 1) = Max (set (sort a))"
    by (intro sorted_last_Max) auto
  then show ?thesis using assms by (simp add: percentile_def Let_def)
qed

lemma percentile_0:
  assumes "a \<noteq> []"
  shows "percentile a 0 = Inr (Min (set a))"
proof -
  have "sort a \<noteq> []" using assms by (metis length_0_conv length_sort)
  then have "sort a ! 0 = Min (set (sort a))"
    by (intro sorted_nth_0_Min) auto
  then show ?thesis using assms by (simp add: percentile_def Let_def)
qed

lemma percentile_interpolates:
  assumes "a \<noteq> []" and "0 \<le> q" and "q \<le> 100"
  shows "\<exists>k t. q / 100 * real (length a - 1) = real k + t \<and> 0 \<le> t \<and> t < 1 \<and> k < length a
           \<and> percentile a q
               = Inr (sort a ! k + t * (sort a ! min (k + 1) (length a - 1) - sort a ! k))"
proof -
  define r where "r = q / 100 * real (length a - 1)"
  define k where "k = nat \<lfloor>r\<rfloor>"
  define t where "t = r - real k"
  have r0: "0 \<le> r" using assms by (simp add: r_def)
  have "q / 100 \<le> 1" using assms by simp
  then have "q / 100 * real (length a - 1) \<le> 1 * real (length a - 1)"
    by (intro mult_right_mono) auto
  then have r1: "r \<le> real (length a - 1)" by (simp add: r_def)
  have k: "real k = of_int \<lfloor>r\<rfloor>" using r0 by (simp add: k_def)
  have kr: "real k \<le> r" using of_int_floor_le[of r] k by linarith
  have 1: "r = real k + t" by (simp add: t_def)
  have 2: "0 \<le> t" using kr by (simp add: t_def)
  have "r < real k + 1" using real_of_int_floor_add_one_gt[of r] k by linarith
  then have 3: "t < 1" by (simp add: t_def)
  have 4: "k < length a"
  proof -
    have "real k \<le> real (length a - 1)" using kr r1 by linarith
    then have "k \<le> length a - 1" by simp
    with assms(1) show ?thesis by (cases a) auto
  qed
  have 5: "percentile a q
      = Inr (sort a ! k + t * (sort a ! min (k + 1) (length a - 1) - sort a ! k))"
    using assms unfolding percentile_def Let_def t_def k_def r_def by simp
  from 1 2 3 4 5 show ?thesis unfolding r_def by blast
qed

lemma train_one_Inr:
  assumes "train_one L mc X n = Inr (m, md)"
  shows "\<exists>scores. fit_model L mc X = Inr (m, scores)
           \<and> percentile scores (mc_threshold_percentile mc) = Inr (md_threshold md)
           \<and> md_score_stats md = stats_of scores"
  using assms by (auto simp: train_one_def bind_result_Inr)

text \<open>
  C7. For a non-empty array of training scores the threshold at percentile 100 is the
  largest score and at percentile 0 the smallest; at a percentile \<open>q\<close> between them it is
  the order statistic at rank \<open>q / 100 * (n - 1)\<close>, interpolated linearly to the next one
  by the fractional part of the rank. \<open>train_models\<close> stores this value as the threshold of
  each model, next to the minimum and maximum of the same scores.
\<close>

theorem threshold_is_percentile:
  "a \<noteq> [] \<longrightarrow>
     percentile a 100 = Inr (Max (set a)) \<and> percentile a 0 = Inr (Min (set a))
     \<and> (0 \<le> q \<and> q \<le> 100 \<longrightarrow>
          (\<exists>k t. q / 100 * real (length a - 1) = real k + t \<and> 0 \<le> t \<and> t < 1 \<and> k < length a
             \<and> percentile a q
                 = Inr (sort a ! k + t * (sort a ! min (k + 1) (length a - 1) - sort a ! k))))
     \<and> (train_one L mc X n = Inr (m, md) \<and> fit_model L mc X = Inr (m, a) \<longrightarrow>
          percentile a (mc_threshold_percentile mc) = Inr (md_threshold md)
          \<and> stat_min (md_score_stats md) = Min (set a)
          \<and> stat_max (md_score_stats md) = Max (set a))"
proof (intro impI conjI)
  assume a: "a \<noteq> []"
  show "percentile a 100 = Inr (Max (set a))" by (rule percentile_100[OF a])
  show "percentile a 0 = Inr (Min (set a))" by (rule percentile_0[OF a])
  show "\<exists>k t. q / 100 * real (length a - 1) = real k + t \<and> 0 \<le> t \<and> t < 1 \<and> k < length a
             \<and> percentile a q
                 = Inr (sort a ! k + t * (sort a ! min (k + 1) (length a - 1) - sort a ! k))"
    if "0 \<le> q \<and> q \<le> 100"
    using percentile_interpolates[OF a, of q] that by blast
  assume t: "train_one L mc X n = Inr (m, md) \<and> fit_model L mc X = Inr (m, a)"
  with train_one_Inr[of L mc X n m md]
  have *: "percentile a (mc_threshold_percentile mc) = Inr (md_threshold md)"
          "md_score_stats md = stats_of a"
    by auto
  show "percentile a (mc_threshold_percentile mc) = Inr (md_threshold md)" by (rule *(1))
  show "stat_min (md_score_stats md) = Min (set a)" by (simp add: *(2) stats_of_def)
  show "stat_max (md_score_stats md) = Max (set a)" by (simp add: *(2) stats_of_def)
qed

lemma example_percentiles:
  "percentile example_train_scores 50 = Inr (9 / 20)"
  "percentile example_train_scores 90 = Inr (4 / 5)"
  by (simp_all add: percentile_def example_train_scores_def Let_def)

lemma example_fit_model:
  "fit_model example_learners example_iforest_config example_matrix
     = Inr (example_iforest, example_train_scores)"
  by (simp add: fit_model_def example_learners_def example_iforest_config_def bind_result_def
        example_matrix_def example_iforest_def example_train_scores_def)

lemma example_train_one:
  "train_one example_learners example_iforest_config example_matrix 4
     = Inr (example_iforest, example_trained_metadata)"
proof -
  have "mc_threshold_percentile example_iforest_config = 90"
    "mc_algorithm example_iforest_config = ''IsolationForest''"
    "n_columns example_matrix = 3"
    by (simp_all add: example_iforest_config_def n_columns_def example_matrix_def)
  then show ?thesis
    by (simp add: train_one_def example_fit_model example_percentiles bind_result_def
          example_trained_metadata_def)
qed

theorem threshold_is_percentile_witness:
  "example_train_scores \<noteq> []
   \<and> percentile example_train_scores 100 = Inr (4 / 5)
   \<and> percentile example_train_scores 0 = Inr (1 / 10)
   \<and> (0::real) \<le> 50 \<and> (50::real) \<le> 100
   \<and> (\<exists>k t. 50 / 100 * real (length example_train_scores - 1) = real k + t \<and> 0 \<le> t \<and> t < 1
          \<and> k < length example_train_scores
          \<and> percentile example_train_scores 50
               = Inr (sort example_train_scores ! k
                      + t * (sort example_train_scores ! min (k + 1) (length example_train_scores - 1)
                             - sort example_train_scores ! k)))
   \<and> percentile example_train_scores 50 = Inr (9 / 20)
   \<and> train_one example_learners example_iforest_config example_matrix 4
        = Inr (example_iforest, example_trained_metadata)
   \<and> fit_model example_learners example_iforest_config example_matrix
        = Inr (example_iforest, example_train_scores)
   \<and> percentile example_train_scores (mc_threshold_percentile example_iforest_config)
        = Inr (md_threshold example_trained_metadata)
   \<and> stat_min (md_score_stats example_trained_metadata) = 1 / 10
   \<and> stat_max (md_score_stats example_trained_metadata) = 4 / 5"
proof -
  have h0: "example_train_scores \<noteq> []" by (simp add: example_train_scores_def)
  have h1: "(0::real) \<le> 50 \<and> (50::real) \<le> 100" by simp
  have h2: "train_one example_learners example_iforest_config example_matrix 4
              = Inr (example_iforest, example_trained_metadata)
            \<and> fit_model example_learners example_iforest_config example_matrix
              = Inr (example_iforest, example_train_scores)"
    by (simp add: example_train_one example_fit_model)
  have mm: "Max (set example_train_scores) = 4 / 5" "Min (set example_train_scores) = 1 / 10"
    by (simp_all add: example_train_scores_def)
  note T = threshold_is_percentile[of example_train_scores 50 example_learners example_iforest_config
             example_matrix 4 example_iforest example_trained_metadata, THEN mp, OF h0]
  note c1 = T[THEN conjunct1, unfolded mm]
  note c2 = T[THEN conjunct2, THEN conjunct1, unfolded mm]
  note c3 = T[THEN conjunct2, THEN conjunct2, THEN conjunct1, THEN mp, OF h1]
  note c4 = T[THEN conjunct2, THEN conjunct2, THEN conjunct2, THEN mp, OF h2, unfolded mm]
  from h0 h1 h2 c1 c2 c3 c4 example_percentiles(1) show ?thesis
    by (intro conjI) (erule conjunct1 conjunct2 | assumption | simp)+
qed

section \<open>Unknown categories\<close>

lemma sequence_map_Inr:
  "(\<And>x. x \<in> set xs \<Longrightarrow> g x = Inr (f x)) \<Longrightarrow> sequence (map g xs) = Inr (map f xs)"
  by (induction xs) simp_all

lemma transform_numeric_number:
  "\<forall>s. v \<noteq> Str s \<Longrightarrow>
     transform_numeric (fill, factor, shift) v
       = Inr ((case v of Num x \<Rightarrow> x | _ \<Rightarrow> fill) * factor + shift)"
  by (cases v) simp_all

lemma onehot_ignore:
  "onehot ''ignore'' vocab v
     = Inr (if v \<in> set vocab then map (\<lambda>k. if k = v then 1 else 0) vocab
            else replicate (length vocab) 0)"
  by (simp add: onehot_def)

lemma transform_row_ignore:
  assumes "pp_handle_unknown pp = ''ignore''"
    and "\<And>c s. c \<in> set (pp_numeric_features pp) \<Longrightarrow> dict_get r c Null \<noteq> Str s"
  shows "transform_row pp fs r
     = Inr (map (\<lambda>(c, fill, factor, shift).
                   (case dict_get r c Null of Num x \<Rightarrow> x | _ \<Rightarrow> fill) * factor + shift)
                (zip (pp_numeric_features pp) (num_params fs))
            @ concat (map (\<lambda>(c, vocab).
                   if impute_categorical (dict_get r c Null) \<in> set vocab
                   then map (\<lambda>k. if k = impute_categorical (dict_get r c Null) then 1 else 0) vocab
                   else replicate (length vocab) 0)
                (zip (pp_categorical_features pp) (cat_vocab fs))))"
proof -
  have nums: "sequence (map (\<lambda>(c, p). transform_numeric p (dict_get r c Null))
                          (zip (pp_numeric_features pp) (num_params fs)))
      = Inr (map (\<lambda>(c, fill, factor, shift).
                   (case dict_get r c Null of Num x \<Rightarrow> x | _ \<Rightarrow> fill) * factor + shift)
                (zip (pp_numeric_features pp) (num_params fs)))"
  proof (rule sequence_map_Inr)
    fix x assume x: "x \<in> set (zip (pp_numeric_features pp) (num_params fs))"
    obtain c fill factor shift where xe: "x = (c, fill, factor, shift)" by (cases x) auto
    from x xe have "c \<in> set (pp_numeric_features pp)" by (auto dest: set_zip_leftD)
    then have "\<forall>s. dict_get r c Null \<noteq> Str s" using assms(2) by blast
    then show "(case x of (c, p) \<Rightarrow> transform_numeric p (dict_get r c Null))
          = Inr (case x of (c, fill, factor, shift) \<Rightarrow>
                   (case dict_get r c Null of Num x \<Rightarrow> x | _ \<Rightarrow> fill) * factor + shift)"
      unfolding xe by (simp add: transform_numeric_number)
  qed
  have hots: "sequence (map (\<lambda>(c, vocab). onehot (pp_handle_unknown pp) vocab
                                (impute_categorical (dict_get r c Null)))
                          (zip (pp_categorical_features pp) (cat_vocab fs)))
      = Inr (map (\<lambda>(c, vocab).
                   if impute_categorical (dict_get r c Null) \<in> set vocab
                   then map (\<lambda>k. if k = impute_categorical (dict_get r c Null) then 1 else 0) vocab
                   else replicate (length vocab) 0)
                (zip (pp_categorical_features pp) (cat_vocab fs)))"
    by (rule sequence_map_Inr) (auto simp: assms(1) onehot_ignore)
  show ?thesis
    unfolding transform_row_def nums hots by (simp add: bind_result_def)
qed

text \<open>
  C4, as the code has it. A fitted pipeline built with \<open>categorical_unknown = "ignore"\<close>,
  the default, does not raise in \<open>transform\<close> on any table that has the feature columns
  and no text in a numeric cell: every row becomes the scaled numeric values followed by
  one block per categorical feature, and the block of a value outside the vocabulary of
  fit time is all zero.
\<close>

theorem unknown_category_is_all_zero_when_ignored:
  assumes "pp = (build_preprocessor nf cf ns sm categorical_unknown)\<lparr>pp_fitted := Some fs\<rparr>"
    and "categorical_unknown = ''ignore''"
    and "columns df \<noteq> []"
    and "set (nf @ cf) \<subseteq> set (columns df)"
    and "\<forall>r \<in> set (rows df). \<forall>c \<in> set nf. \<forall>s. dict_get r c Null \<noteq> Str s"
  shows "transform pp df
     = Inr (map (\<lambda>r.
          map (\<lambda>(c, fill, factor, shift).
                 (case dict_get r c Null of Num x \<Rightarrow> x | _ \<Rightarrow> fill) * factor + shift)
              (zip nf (num_params fs))
          @ concat (map (\<lambda>(c, vocab).
                 if impute_categorical (dict_get r c Null) \<in> set vocab
                 then map (\<lambda>k. if k = impute_categorical (dict_get r c Null) then 1 else 0) vocab
                 else replicate (length vocab) 0)
              (zip cf (cat_vocab fs))))
        (rows df))"
proof -
  have pp: "pp_handle_unknown pp = ''ignore''" "pp_fitted pp = Some fs"
    "pp_numeric_features pp = nf" "pp_categorical_features pp = cf"
    using assms(1,2) by (simp_all add: build_preprocessor_def)
  have cols: "set (pp_numeric_features pp @ pp_categorical_features pp) - set (columns df) = {}"
    using assms(4) by (simp add: pp)
  have rows: "sequence (map (transform_row pp fs) (rows df))
     = Inr (map (\<lambda>r.
          map (\<lambda>(c, fill, factor, shift).
                 (case dict_get r c Null of Num x \<Rightarrow> x | _ \<Rightarrow> fill) * factor + shift)
              (zip (pp_numeric_features pp) (num_params fs))
          @ concat (map (\<lambda>(c, vocab).
                 if impute_categorical (dict_get r c Null) \<in> set vocab
                 then map (\<lambda>k. if k = impute_categorical (dict_get r c Null) then 1 else 0) vocab
                 else replicate (length vocab) 0)
              (zip (pp_categorical_features pp) (cat_vocab fs))))
        (rows df))"
  proof (rule sequence_map_Inr)
    fix r assume "r \<in> set (rows df)"
    then have "\<And>c s. c \<in> set (pp_numeric_features pp) \<Longrightarrow> dict_get r c Null \<noteq> Str s"
      using assms(5) by (simp add: pp)
    from transform_row_ignore[OF pp(1) this]
    show "transform_row pp fs r = Inr (map (\<lambda>(c, fill, factor, shift).
                 (case dict_get r c Null of Num x \<Rightarrow> x | _ \<Rightarrow> fill) * factor + shift)
              (zip (pp_numeric_features pp) (num_params fs))
          @ concat (map (\<lambda>(c, vocab).
                 if impute_categorical (dict_get r c Null) \<in> set vocab
                 then map (\<lambda>k. if k = impute_categorical (dict_get r c Null) then 1 else 0) vocab
                 else replicate (length vocab) 0)
              (zip (pp_categorical_features pp) (cat_vocab fs))))" .
  qed
  show ?thesis
    unfolding transform_def using cols assms(3) by (simp add: pp(2) rows) (simp add: pp)
qed


lemma example_features_table:
  "columns (fst (prepare_features example_table (cfg_features example_config) False))
     = [''csat'', ''channel'']"
  "map (\<lambda>r. dict_get r ''csat'' Null)
       (rows (fst (prepare_features example_table (cfg_features example_config) False)))
     = [Num (9 / 2), Num 1, Num 1, Num (9 / 2)]"
  "map (\<lambda>r. dict_get r ''channel'' Null)
       (rows (fst (prepare_features example_table (cfg_features example_config) False)))
     = [Str ''voice'', Str ''fax'', Str ''voice'', Str ''chat'']"
  by code_simp+

lemma example_features_numbers:
  "\<forall>r \<in> set (rows (fst (prepare_features example_table (cfg_features example_config) False))).
     \<forall>c \<in> set [''csat'']. \<forall>s. dict_get r c Null \<noteq> Str s"
proof -
  let ?rs = "rows (fst (prepare_features example_table (cfg_features example_config) False))"
  have "\<forall>v \<in> set (map (\<lambda>r. dict_get r ''csat'' Null) ?rs). \<forall>s. v \<noteq> Str s"
    unfolding example_features_table(2) by simp
  then show ?thesis by simp
qed

lemma example_encoding:
  "map (\<lambda>r.
          map (\<lambda>(c, fill, factor, shift).
                 (case dict_get r c Null of Num x \<Rightarrow> x | _ \<Rightarrow> fill) * factor + shift)
              (zip [''csat''] (num_params example_fit))
          @ concat (map (\<lambda>(c, vocab).
                 if impute_categorical (dict_get r c Null) \<in> set vocab
                 then map (\<lambda>k. if k = impute_categorical (dict_get r c Null) then 1 else 0) vocab
                 else replicate (length vocab) 0)
              (zip [''channel''] (cat_vocab example_fit))))
        (rows (fst (prepare_features example_table (cfg_features example_config) False)))
     = example_matrix"
  by code_simp

theorem unknown_category_is_all_zero_when_ignored_witness:
  "example_preprocessor
     = (build_preprocessor [''csat''] [''channel''] ''mean'' ''standard'' ''ignore'')
         \<lparr>pp_fitted := Some example_fit\<rparr>
   \<and> columns (fst (prepare_features example_table (cfg_features example_config) False))
        = [''csat'', ''channel'']
   \<and> map (\<lambda>r. dict_get r ''csat'' Null)
          (rows (fst (prepare_features example_table (cfg_features example_config) False)))
        = [Num (9 / 2), Num 1, Num 1, Num (9 / 2)]
   \<and> map (\<lambda>r. dict_get r ''channel'' Null)
          (rows (fst (prepare_features example_table (cfg_features example_config) False)))
        = [Str ''voice'', Str ''fax'', Str ''voice'', Str ''chat'']
   \<and> cat_vocab example_fit = [[Str ''chat'', Str ''voice'']]
   \<and> transform example_preprocessor
        (fst (prepare_features example_table (cfg_features example_config) False))
        = Inr [[9 / 2, 0, 1], [1, 0, 0], [1, 0, 1], [9 / 2, 1, 0]]"
proof -
  let ?df = "fst (prepare_features example_table (cfg_features example_config) False)"
  have pp: "example_preprocessor
     = (build_preprocessor [''csat''] [''channel''] ''mean'' ''standard'' ''ignore'')
         \<lparr>pp_fitted := Some example_fit\<rparr>"
    by (simp add: example_preprocessor_def)
  have cols: "columns ?df \<noteq> []" "set ([''csat''] @ [''channel'']) \<subseteq> set (columns ?df)"
    by (simp_all add: example_features_table(1))
  from unknown_category_is_all_zero_when_ignored[OF pp refl cols example_features_numbers]
  have "transform example_preprocessor ?df = Inr example_matrix"
    unfolding example_encoding .
  with pp example_features_table show ?thesis
    by (simp add: example_matrix_def example_fit_def)
qed

text \<open>
  C4 as stated fails: the pipeline built with \<open>categorical_unknown = "error"\<close>, the other
  setting the docstring of \<open>build_preprocessor\<close> names, raises on the second row of the
  table, whose channel was not seen at fit time.
\<close>

theorem unknown_category_raises_counterexample:
  "pp_fitted strict_preprocessor = Some example_fit
   \<and> cat_vocab example_fit = [[Str ''chat'', Str ''voice'']]
   \<and> dict_get (rows example_table ! 1) ''channel'' Null = Str ''fax''
   \<and> Str ''fax'' \<notin> set [Str ''chat'', Str ''voice'']
   \<and> transform strict_preprocessor
        (fst (prepare_features example_table (cfg_features example_config) False))
        = Inl (ValueError ''Found unknown categories'')"
  by code_simp

section \<open>Schema errors\<close>

lemma train_models_schema_error:
  assumes "load_csv w (dc_train_path (cfg_data cfg)) = Inr df"
    and "set (required_cols (cfg_features cfg)) - set (columns df) \<noteq> {}"
  shows "train_models w L cfg
           = Inl (MissingColumns (set (required_cols (cfg_features cfg)) - set (columns df)))"
  using assms by (simp add: train_models_def validate_schema_def bind_result_def Let_def)

text \<open>
  C3 on the serving path. \<open>score_records\<close> does not validate the schema: a table without
  a required column reaches \<open>transform\<close>, whose error the endpoint reports with status
  500. That happens for an empty list of records, whose table has no column at all, and
  for a configured feature that the request schema does not have. \<open>validate_schema\<close>, which
  the training path calls first, names the missing columns on the same tables.
\<close>

theorem serving_schema_error_is_internal:
  "score_interactions example_state [] ''both''
     = Inl (HTTPException 500 ([CHR 0x27] @ ''NoneType'' @ [CHR 0x27] @ '' object is not iterable''))
   \<and> validate_schema (DataFrame (map model_dump [])) (cfg_features example_config)
        = Inl (MissingColumns {''csat'', ''channel'', ''interaction_id'', ''timestamp''})
   \<and> score_interactions extended_state example_records ''both''
        = Inl (HTTPException 500 ''columns are missing'')
   \<and> validate_schema (DataFrame (map model_dump example_records)) (cfg_features extended_config)
        = Inl (MissingColumns {''sentiment''})"
  by code_simp

section \<open>Loading into the serving state\<close>

lemma joblib_load_Inr: "joblib_load w p = Inr obj \<longleftrightarrow> w_files w p = Some obj"
  by (simp add: joblib_load_def split: option.splits)

text \<open>
  The loop that succeeds makes two assignments per configured model and leaves, under
  each configured name, what the files hold; every other entry and every other field of
  the state is as it was.
\<close>

lemma load_models_loop_success:
  assumes "fst (load_models_loop w cfg mcs st) = None"
  shows "length (snd (load_models_loop w cfg mcs st)) = 2 * length mcs
       \<and> ms_preprocessor (last (st # snd (load_models_loop w cfg mcs st))) = ms_preprocessor st
       \<and> ms_loaded_at (last (st # snd (load_models_loop w cfg mcs st))) = ms_loaded_at st
       \<and> ms_config (last (st # snd (load_models_loop w cfg mcs st))) = ms_config st
       \<and> map_of (ms_models (last (st # snd (load_models_loop w cfg mcs st)))) n
           = (if n \<in> mc_name ` set mcs then w_files w (model_path cfg n)
              else map_of (ms_models st) n)
       \<and> map_of (ms_metadata (last (st # snd (load_models_loop w cfg mcs st)))) n
           = (if n \<in> mc_name ` set mcs then w_files w (meta_path cfg n)
              else map_of (ms_metadata st) n)"
  using assms
proof (induction mcs arbitrary: st)
  case Nil
  then show ?case by simp
next
  case (Cons mc mcs)
  from Cons.prems obtain m where m: "joblib_load w (model_path cfg (mc_name mc)) = Inr m"
    by (cases "joblib_load w (model_path cfg (mc_name mc))") auto
  define st1 where "st1 = st\<lparr>ms_models := AList.update (mc_name mc) m (ms_models st)\<rparr>"
  from Cons.prems m obtain md where md: "joblib_load w (meta_path cfg (mc_name mc)) = Inr md"
    by (cases "joblib_load w (meta_path cfg (mc_name mc))") (auto simp: Let_def)
  define st2 where "st2 = st1\<lparr>ms_metadata := AList.update (mc_name mc) md (ms_metadata st1)\<rparr>"
  have unfold: "load_models_loop w cfg (mc # mcs) st
                  = (fst (load_models_loop w cfg mcs st2), st1 # st2 # snd (load_models_loop w cfg mcs st2))"
    by (simp add: m md st1_def st2_def Let_def)
  with Cons.prems have rest: "fst (load_models_loop w cfg mcs st2) = None" by simp
  note IH = Cons.IH[OF rest]
  have files: "w_files w (model_path cfg (mc_name mc)) = Some m"
              "w_files w (meta_path cfg (mc_name mc)) = Some md"
    using m md by (simp_all add: joblib_load_Inr)
  have st2: "ms_preprocessor st2 = ms_preprocessor st" "ms_loaded_at st2 = ms_loaded_at st"
    "ms_config st2 = ms_config st"
    "map_of (ms_models st2) = (map_of (ms_models st))(mc_name mc \<mapsto> m)"
    "map_of (ms_metadata st2) = (map_of (ms_metadata st))(mc_name mc \<mapsto> md)"
    by (simp_all add: st1_def st2_def update_conv')
  show ?case
    unfolding unfold using IH files by (auto simp: st2)
qed

lemma load_model_artifacts_success:
  assumes "load_model_artifacts w st = (None, st')"
  shows "\<exists>cfg. load_config w = Inr cfg \<and> ms_config st' = Some cfg
           \<and> ms_loaded_at st' = Some (w_now w)
           \<and> ms_preprocessor st' = w_files w (preprocessor_path cfg)
           \<and> length (snd (load_model_artifacts_states w st)) = 3 + 2 * length (cfg_models cfg)
           \<and> map_of (ms_models st') n
               = (if n \<in> mc_name ` set (cfg_models cfg) then w_files w (model_path cfg n)
                  else map_of (ms_models st) n)
           \<and> map_of (ms_metadata st') n
               = (if n \<in> mc_name ` set (cfg_models cfg) then w_files w (meta_path cfg n)
                  else map_of (ms_metadata st) n)"
proof -
  from assms have ok: "fst (load_model_artifacts_states w st) = None"
    and st': "st' = last (st # snd (load_model_artifacts_states w st))"
    by (simp_all add: load_model_artifacts_def Let_def)
  from ok obtain cfg where cfg: "load_config w = Inr cfg"
    by (cases "load_config w") (auto simp: load_model_artifacts_states_def)
  from ok cfg obtain p where p: "joblib_load w (preprocessor_path cfg) = Inr p"
    by (cases "joblib_load w (preprocessor_path cfg)") (auto simp: load_model_artifacts_states_def)
  define st1 where "st1 = st\<lparr>ms_preprocessor := Some p\<rparr>"
  define loop where "loop = load_models_loop w cfg (cfg_models cfg) st1"
  define st2 where "st2 = last (st1 # snd loop)"
  from ok cfg p have loop_ok: "fst loop = None"
    by (cases "fst loop") (auto simp: load_model_artifacts_states_def Let_def loop_def st1_def)
  then have states: "load_model_artifacts_states w st
      = (None, st1 # snd loop @ [st2\<lparr>ms_loaded_at := Some (w_now w)\<rparr>,
                                  st2\<lparr>ms_loaded_at := Some (w_now w), ms_config := Some cfg\<rparr>])"
    using cfg p by (simp add: load_model_artifacts_states_def Let_def loop_def st1_def st2_def)
  have final: "st' = st2\<lparr>ms_loaded_at := Some (w_now w), ms_config := Some cfg\<rparr>"
    by (simp add: st' states)
  note L = load_models_loop_success[OF loop_ok[unfolded loop_def], of n, folded loop_def, folded st2_def]
  have "w_files w (preprocessor_path cfg) = Some p" using p by (simp add: joblib_load_Inr)
  then show ?thesis
    using cfg L by (intro exI[of _ cfg]) (simp add: final states st1_def)
qed


lemmas load_eval =
  load_model_artifacts_def load_model_artifacts_states_def reload_model_def startup_event_def
  health_check_def load_config_def joblib_load_def preprocessor_path_def model_path_def
  meta_path_def path_join_def Let_def example_config_def example_state_def initial_state_def
  updated_world_def broken_world_def partial_world_def shrunk_world_def

lemma example_probe_scores:
  "score_records example_state probe ''both'' = Inr [example_score ''a'' (1 / 10) 0 2 1 (1 / 2) 1]"
  "score_records (snd (reload_model broken_world example_state)) probe ''both''
     = Inr [example_score ''a'' (- (1 / 4)) 0 2 1 (1 / 2) 1]"
  by code_simp+

lemma updated_differs:
  "updated_preprocessor \<noteq> example_preprocessor"
  "updated_iforest_metadata \<noteq> example_iforest_metadata"
  by (simp_all add: updated_preprocessor_def example_preprocessor_def build_preprocessor_def
        example_fit_def updated_iforest_metadata_def example_iforest_metadata_def)

text \<open>
  A reload from a directory that holds every configured artifact replaces all of them.
\<close>

lemma complete_reload:
  "reload_model updated_world example_state = (Inr ''success'', updated_state)"
  by (simp add: load_eval updated_state_def)

section \<open>A reload under a configuration that lost a model\<close>

lemma shrunk_reload:
  "fst (reload_model shrunk_world example_state) = Inr ''success''"
  "ms_preprocessor example_state = Some (PreprocessorObj example_preprocessor)"
  "ms_preprocessor (snd (reload_model shrunk_world example_state))
     = Some (PreprocessorObj updated_preprocessor)"
  "map_of (ms_models (snd (reload_model shrunk_world example_state))) ''iforest''
     = Some (ModelObj updated_iforest)"
  "map_of (ms_metadata (snd (reload_model shrunk_world example_state))) ''iforest''
     = Some (MetadataObj updated_iforest_metadata)"
  "map_of (ms_models (snd (reload_model shrunk_world example_state))) ''lof''
     = Some (ModelObj example_lof)"
  "map_of (ms_metadata (snd (reload_model shrunk_world example_state))) ''lof''
     = Some (MetadataObj example_lof_metadata)"
  "map fst (ms_models (snd (reload_model shrunk_world example_state))) = [''iforest'', ''lof'']"
  "map fst (ms_models (snd (reload_model shrunk_world initial_state))) = [''iforest'']"
  by (simp_all add: load_eval example_iforest_config_def)

lemma shrunk_probe_scores:
  "score_records (snd (reload_model shrunk_world example_state)) probe ''both''
     = Inr [example_score ''a'' (- (1 / 4)) 0 2 1 (1 / 2) 1]"
  "score_records (snd (reload_model shrunk_world initial_state)) probe ''both''
     = Inl (HTTPException 503 (''Model '' @ [CHR 0x27] @ ''lof'' @ [CHR 0x27] @ '' not available''))"
  "bind_result (load_artifacts shrunk_world (example_config\<lparr>cfg_models := [example_iforest_config]\<rparr>) None)
     (\<lambda>a. Inr (keys (a_models a), keys (a_metadata a)))
     = Inr ([''iforest''], [''iforest''])"
  by code_simp+

text \<open>
  C1 on the code. There is no snapshot that a reload builds and swaps in:
  \<open>load_model_artifacts\<close> assigns into the one serving state, and only under the names of
  the configuration it has just read. After the configuration lost the LOF and the
  artifacts were retrained, \<open>POST /reload\<close> on the loaded service succeeds and leaves the
  preprocessor and the isolation forest of the new load next to the LOF and the LOF
  metadata of the old one; the next request for both models is answered from that mix,
  with the score of the new isolation forest (-1/4, where it was 1/10) and a score of the
  old LOF. The artifacts of the new load alone hold no LOF: \<open>load_artifacts\<close> of predict.py
  returns the isolation forest only, and the same load into an empty serving state
  refuses the request with status 503.
\<close>

theorem reload_keeps_stale_model:
  "fst (reload_model shrunk_world example_state) = Inr ''success''
   \<and> ms_preprocessor example_state = Some (PreprocessorObj example_preprocessor)
   \<and> ms_preprocessor (snd (reload_model shrunk_world example_state))
       = Some (PreprocessorObj updated_preprocessor)
   \<and> updated_preprocessor \<noteq> example_preprocessor
   \<and> map_of (ms_models (snd (reload_model shrunk_world example_state))) ''iforest''
       = Some (ModelObj updated_iforest)
   \<and> map_of (ms_metadata (snd (reload_model shrunk_world example_state))) ''iforest''
       = Some (MetadataObj updated_iforest_metadata)
   \<and> updated_iforest_metadata \<noteq> example_iforest_metadata
   \<and> map_of (ms_models (snd (reload_model shrunk_world example_state))) ''lof''
       = Some (ModelObj example_lof)
   \<and> map_of (ms_metadata (snd (reload_model shrunk_world example_state))) ''lof''
       = Some (MetadataObj example_lof_metadata)
   \<and> map fst (ms_models (snd (reload_model shrunk_world example_state))) = [''iforest'', ''lof'']
   \<and> score_records example_state probe ''both''
       = Inr [example_score ''a'' (1 / 10) 0 2 1 (1 / 2) 1]
   \<and> score_records (snd (reload_model shrunk_world example_state)) probe ''both''
       = Inr [example_score ''a'' (- (1 / 4)) 0 2 1 (1 / 2) 1]
   \<and> bind_result (load_artifacts shrunk_world (example_config\<lparr>cfg_models := [example_iforest_config]\<rparr>) None)
         (\<lambda>a. Inr (keys (a_models a), keys (a_metadata a)))
       = Inr ([''iforest''], [''iforest''])
   \<and> map fst (ms_models (snd (reload_model shrunk_world initial_state))) = [''iforest'']
   \<and> score_records (snd (reload_model shrunk_world initial_state)) probe ''both''
       = Inl (HTTPException 503 (''Model '' @ [CHR 0x27] @ ''lof'' @ [CHR 0x27] @ '' not available''))"
  using shrunk_reload shrunk_probe_scores updated_differs example_probe_scores(1)
  by (intro conjI) (assumption | simp)+

section \<open>A load that fails\<close>

text \<open>
  C2 on the code. The reload from the directory that lacks the LOF model fails with
  status 500 after three assignments: the state keeps the new preprocessor and the new
  isolation forest with its metadata next to the old LOF, and the same record scores
  -1/4 where it scored 1/10 before. At startup, a directory with the preprocessor and one
  model but no metadata makes the load fail with that model installed, and the health
  check reports the service as healthy.
\<close>

theorem failed_load_leaves_partial_state:
  "fst (reload_model broken_world example_state)
     = Inl (HTTPException 500 (''[Errno 2] No such file or directory: ''
                                 @ [CHR 0x27] @ ''artifacts/model_lof.joblib'' @ [CHR 0x27]))
   \<and> ms_preprocessor example_state = Some (PreprocessorObj example_preprocessor)
   \<and> ms_preprocessor (snd (reload_model broken_world example_state))
       = Some (PreprocessorObj updated_preprocessor)
   \<and> updated_preprocessor \<noteq> example_preprocessor
   \<and> map_of (ms_metadata (snd (reload_model broken_world example_state))) ''iforest''
       = Some (MetadataObj updated_iforest_metadata)
   \<and> map_of (ms_metadata (snd (reload_model broken_world example_state))) ''lof''
       = Some (MetadataObj example_lof_metadata)
   \<and> score_records example_state probe ''both''
       = Inr [example_score ''a'' (1 / 10) 0 2 1 (1 / 2) 1]
   \<and> score_records (snd (reload_model broken_world example_state)) probe ''both''
       = Inr [example_score ''a'' (- (1 / 4)) 0 2 1 (1 / 2) 1]
   \<and> fst (load_model_artifacts partial_world initial_state)
       = Some (FileNotFoundError ''artifacts/meta_iforest.joblib'')
   \<and> map fst (ms_models (startup_event partial_world initial_state)) = [''iforest'']
   \<and> health_check (startup_event partial_world initial_state) = (''healthy'', True)
   \<and> health_check initial_state = (''degraded'', False)"
proof -
  have "fst (reload_model broken_world example_state)
     = Inl (HTTPException 500 (''[Errno 2] No such file or directory: ''
                                 @ [CHR 0x27] @ ''artifacts/model_lof.joblib'' @ [CHR 0x27]))"
    "ms_preprocessor example_state = Some (PreprocessorObj example_preprocessor)"
    "ms_preprocessor (snd (reload_model broken_world example_state))
       = Some (PreprocessorObj updated_preprocessor)"
    "map_of (ms_metadata (snd (reload_model broken_world example_state))) ''iforest''
       = Some (MetadataObj updated_iforest_metadata)"
    "map_of (ms_metadata (snd (reload_model broken_world example_state))) ''lof''
       = Some (MetadataObj example_lof_metadata)"
    "fst (load_model_artifacts partial_world initial_state)
       = Some (FileNotFoundError ''artifacts/meta_iforest.joblib'')"
    "map fst (ms_models (startup_event partial_world initial_state)) = [''iforest'']"
    "health_check (startup_event partial_world initial_state) = (''healthy'', True)"
    "health_check initial_state = (''degraded'', False)"
    by (simp_all add: load_eval)
  with updated_differs(1) example_probe_scores show ?thesis by simp
qed

end
